theory Spec2Isabelle
  imports Complex_Main
begin

section \<open>Errors\<close>

text \<open>
  The exceptions the script can raise, as values.  \<open>NetworkError\<close> stands for whatever
  \<open>requests.get\<close>, \<open>raise_for_status\<close> or \<open>response.json\<close> raise; \<open>KeyError k\<close> is a
  dictionary subscript with the missing key \<open>k\<close>; \<open>IndexError\<close> is a list subscript out of
  range; \<open>ValueError\<close> is what \<open>csv.DictWriter\<close> raises for a row with a key outside its
  field names.  None of them is caught anywhere in the script, so each one ends the run.
\<close>

datatype py_error = NetworkError | KeyError string | IndexError | ValueError

section \<open>The evolution-chain parser\<close>

text \<open>
  A node of the chain resource: \<open>current["species"]["name"]\<close> and \<open>current["evolves_to"]\<close>.
\<close>

datatype chain_node = ChainNode (species_name: string) (evolves_to: "chain_node list")

text \<open>The value stored per species: \<open>{"from": previous, "to": [...]}\<close>.\<close>

record evo_entry =
  evo_from :: "string option"
  evo_to :: "string list"

type_synonym evo_dict = "string \<rightharpoonup> evo_entry"

text \<open>
  \<open>recurse_chain\<close> threads the dictionary \<open>evo_dict\<close> of the enclosing function through the
  recursion.  The second component of the state is a log of the calls of \<open>recurse_chain\<close>
  (the node each call receives as \<open>current\<close>), kept only to speak about which nodes are
  visited; nothing reads it.  \<open>recurse_loop\<close> is the \<open>for evo in current["evolves_to"]\<close>
  loop; its subscript \<open>evo_dict[species_name]\<close> is looked up again in every iteration, as
  the source does, so an entry replaced by a recursive call is the one appended to.  The
  interpreter's bound on the depth of the recursion is not modelled.
\<close>

type_synonym parse_state = "evo_dict \<times> chain_node list"

fun recurse_chain :: "chain_node \<Rightarrow> string option \<Rightarrow> parse_state \<Rightarrow> py_error + parse_state"
  and recurse_loop :: "string \<Rightarrow> chain_node list \<Rightarrow> parse_state \<Rightarrow> py_error + parse_state"
where
  "recurse_chain (ChainNode name evos) previous (d, visited) =
     recurse_loop name evos
       (d(name \<mapsto> \<lparr>evo_from = previous, evo_to = []\<rparr>), visited @ [ChainNode name evos])"
| "recurse_loop name [] s = Inr s"
| "recurse_loop name (evo # rest) (d, visited) =
     (case d name of
        None \<Rightarrow> Inl (KeyError name)
      | Some e \<Rightarrow>
          (case recurse_chain evo (Some name)
                  (d(name \<mapsto> e\<lparr>evo_to := evo_to e @ [species_name evo]\<rparr>), visited) of
             Inl err \<Rightarrow> Inl err
           | Inr s' \<Rightarrow> recurse_loop name rest s'))"

text \<open>The chain resource itself: an object whose \<open>"chain"\<close> member is the root node.\<close>

record evolution_chain_data =
  chain :: chain_node

definition parse_evolution_chain :: "evolution_chain_data \<Rightarrow> py_error + evo_dict" where
  "parse_evolution_chain c =
     (case recurse_chain (chain c) None (Map.empty, []) of
        Inl err \<Rightarrow> Inl err
      | Inr (d, visited) \<Rightarrow> Inr d)"


text \<open>
  The tree as data, for stating what the parser computes: the nodes in the order of a
  depth-first traversal, and each node paired with the species name of its parent.
\<close>

fun chain_nodes :: "chain_node \<Rightarrow> chain_node list" where
  "chain_nodes (ChainNode name evos) = ChainNode name evos # concat (map chain_nodes evos)"

fun chain_links :: "chain_node \<Rightarrow> string option \<Rightarrow> (chain_node \<times> string option) list" where
  "chain_links (ChainNode name evos) previous =
     (ChainNode name evos, previous) # concat (map (\<lambda>evo. chain_links evo (Some name)) evos)"

definition chain_names :: "chain_node \<Rightarrow> string list" where
  "chain_names t = map species_name (chain_nodes t)"

text \<open>The entry a parse result holds for one species, for evaluation on examples.\<close>

definition parsed_entry :: "evolution_chain_data \<Rightarrow> string \<Rightarrow> py_error + evo_entry option" where
  "parsed_entry c k =
     (case parse_evolution_chain c of Inl err \<Rightarrow> Inl err | Inr d \<Rightarrow> Inr (d k))"

section \<open>The API payloads\<close>

text \<open>
  The members of the JSON responses that the script reads, typed.  A response of another
  shape is a payload of another constructor (see \<open>payload\<close> below).  Strings are lists
  of bytes; the script compares them with ASCII literals and replaces ASCII characters
  only, which acts on the UTF-8 bytes as it does on code points.
\<close>

record type_slot =
  type_name :: string

record stat_slot =
  stat_name :: string
  base_stat :: int

record pokemon_data =
  p_name :: string
  p_types :: "type_slot list"
  p_stats :: "stat_slot list"
  p_height :: int
  p_weight :: int
  p_front_default :: string
  p_species_url :: string

record flavor_text_entry =
  flavor_text :: string
  language_name :: string
  version_name :: string

record species_data =
  s_flavor_text_entries :: "flavor_text_entry list"
  s_evolution_chain_url :: string

datatype payload =
    PokemonPayload pokemon_data
  | SpeciesPayload species_data
  | ChainPayload evolution_chain_data

text \<open>
  The network: what a GET of a URL answers, \<open>None\<close> when the request, its status check or
  the JSON decoding fails.
\<close>

type_synonym network = "string \<Rightarrow> payload option"

definition fetch_data :: "network \<Rightarrow> string \<Rightarrow> py_error + payload" where
  "fetch_data net url = (case net url of None \<Rightarrow> Inl NetworkError | Some p \<Rightarrow> Inr p)"

section \<open>Extraction of the base information\<close>

definition bind :: "'e + 'a \<Rightarrow> ('a \<Rightarrow> 'e + 'b) \<Rightarrow> 'e + 'b" where
  "bind r f = (case r of Inl err \<Rightarrow> Inl err | Inr x \<Rightarrow> f x)"

text \<open>\<open>d[k]\<close> on a dictionary.\<close>

definition subscript :: "(string \<rightharpoonup> 'v) \<Rightarrow> string \<Rightarrow> py_error + 'v" where
  "subscript d k = (case d k of None \<Rightarrow> Inl (KeyError k) | Some v \<Rightarrow> Inr v)"

text \<open>\<open>types = [t["type"]["name"] for t in pokemon_data["types"]]\<close>\<close>

definition types_of :: "pokemon_data \<Rightarrow> string list" where
  "types_of pokemon_data = map type_name (p_types pokemon_data)"

text \<open>\<open>type_primary = types[0]\<close>\<close>

definition type_primary :: "string list \<Rightarrow> py_error + string" where
  "type_primary types = (case types of [] \<Rightarrow> Inl IndexError | t # _ \<Rightarrow> Inr t)"

text \<open>\<open>type_secondary = types[1] if len(types) > 1 else ""\<close>\<close>

definition type_secondary :: "string list \<Rightarrow> string" where
  "type_secondary types = (if length types > 1 then types ! 1 else [])"

text \<open>
  \<open>stats = {s["stat"]["name"]: s["base_stat"] for s in pokemon_data["stats"]}\<close>: a later
  entry of the same name replaces an earlier one.
\<close>

definition stats_of :: "pokemon_data \<Rightarrow> (string \<rightharpoonup> int)" where
  "stats_of pokemon_data =
     foldl (\<lambda>stats s. stats(stat_name s \<mapsto> base_stat s)) Map.empty (p_stats pokemon_data)"

text \<open>
  The value of Python's \<open>a / b\<close> on two integers is a float; it is kept as the quotient it
  stands for, unevaluated.
\<close>

datatype pyfloat = TrueDiv int int

record base_info =
  b_name :: string
  b_type_primary :: string
  b_type_secondary :: string
  b_hp :: int
  b_attack :: int
  b_defense :: int
  b_special_attack :: int
  b_special_defense :: int
  b_speed :: int
  b_height :: pyfloat
  b_weight :: pyfloat
  b_image_url :: string

text \<open>Lines 49 to 63 of the loop body, in the source's order.\<close>

definition extract_base_info :: "pokemon_data \<Rightarrow> py_error + base_info" where
  "extract_base_info pokemon_data =
     (let name = p_name pokemon_data;
          types = types_of pokemon_data
      in bind (type_primary types) (\<lambda>type_primary.
         let type_secondary = type_secondary types;
             stats = stats_of pokemon_data
         in bind (subscript stats ''hp'') (\<lambda>hp.
            bind (subscript stats ''attack'') (\<lambda>attack.
            bind (subscript stats ''defense'') (\<lambda>defense.
            bind (subscript stats ''special-attack'') (\<lambda>special_attack.
            bind (subscript stats ''special-defense'') (\<lambda>special_defense.
            bind (subscript stats ''speed'') (\<lambda>speed.
            Inr \<lparr>b_name = name,
                 b_type_primary = type_primary,
                 b_type_secondary = type_secondary,
                 b_hp = hp,
                 b_attack = attack,
                 b_defense = defense,
                 b_special_attack = special_attack,
                 b_special_defense = special_defense,
                 b_speed = speed,
                 b_height = TrueDiv (p_height pokemon_data) 10,
                 b_weight = TrueDiv (p_weight pokemon_data) 10,
                 b_image_url = p_front_default pokemon_data\<rparr>))))))))"

definition required_stats :: "string list" where
  "required_stats =
     [''hp'', ''attack'', ''defense'', ''special-attack'', ''special-defense'', ''speed'']"

section \<open>The description\<close>

text \<open>
  \<open>s.replace(old, new)\<close> for a pattern \<open>old\<close> of one character: every occurrence is
  replaced, left to right.
\<close>

definition replace :: "string \<Rightarrow> char \<Rightarrow> string \<Rightarrow> string" where
  "replace s old new = concat (map (\<lambda>c. if c = old then new else [c]) s)"

definition newline :: char where
  "newline = CHR 0x0A"

definition formfeed :: char where
  "formfeed = CHR 0x0C"

text \<open>
  \<open>entry["language"]["name"] == "en" and entry["version"]["name"] in ["red", "blue"]\<close>
\<close>

definition red_blue_english :: "flavor_text_entry \<Rightarrow> bool" where
  "red_blue_english entry \<longleftrightarrow>
     language_name entry = ''en'' \<and> version_name entry \<in> set [''red'', ''blue'']"

text \<open>Lines 72 to 76: the loop over the entries, left at the first match.\<close>

fun description :: "flavor_text_entry list \<Rightarrow> string" where
  "description [] = []"
| "description (entry # entries) =
     (if red_blue_english entry
      then replace (replace (flavor_text entry) newline '' '') formfeed []
      else description entries)"

section \<open>The evolution cache and the evolution details\<close>

text \<open>
  The three calls of \<open>fetch_data\<close> in the loop body (lines 45, 68 and 86), each with the URL
  it is given.  The run keeps a log of them.  A request of a chain resource is a call of
  line 86, the one made on a cache miss.
\<close>

datatype fetch = FetchPokemon string | FetchSpecies string | FetchChain string

datatype cell = IntCell int | StrCell string | FloatCell pyfloat

record run_state =
  evo_cache :: "string \<rightharpoonup> evo_dict"
  csvfile :: "cell list list"
  requests :: "fetch list"

type_synonym 'a outcome = "(py_error \<times> run_state) + 'a"

text \<open>Lines 83 to 91.\<close>

definition get_evolution_chain ::
  "network \<Rightarrow> string \<Rightarrow> run_state \<Rightarrow> (evo_dict \<times> run_state) outcome" where
  "get_evolution_chain net evolution_chain_url st =
     (case evo_cache st evolution_chain_url of
        None \<Rightarrow>
          (let st' = st\<lparr>requests := requests st @ [FetchChain evolution_chain_url]\<rparr>
           in case fetch_data net evolution_chain_url of
                Inl err \<Rightarrow> Inl (err, st')
              | Inr (ChainPayload evolution_chain_data) \<Rightarrow>
                  (case parse_evolution_chain evolution_chain_data of
                     Inl err \<Rightarrow> Inl (err, st')
                   | Inr evo_dict \<Rightarrow>
                       Inr (evo_dict,
                            st'\<lparr>evo_cache := (evo_cache st')(evolution_chain_url \<mapsto> evo_dict)\<rparr>))
              | Inr _ \<Rightarrow> Inl (KeyError ''chain'', st'))
      | Some evo_dict \<Rightarrow> Inr (evo_dict, st))"

text \<open>\<open>evo_details = evo_dict.get(name, {"from": None, "to": []})\<close>\<close>

definition evo_details :: "evo_dict \<Rightarrow> string \<Rightarrow> evo_entry" where
  "evo_details evo_dict name =
     (case evo_dict name of None \<Rightarrow> \<lparr>evo_from = None, evo_to = []\<rparr> | Some e \<Rightarrow> e)"

text \<open>
  \<open>evolution_from = evo_details["from"] if evo_details["from"] else ""\<close>: \<open>None\<close> and the
  empty string are both false.
\<close>

definition evolution_from :: "evo_entry \<Rightarrow> string" where
  "evolution_from details =
     (case evo_from details of None \<Rightarrow> [] | Some s \<Rightarrow> if s \<noteq> [] then s else [])"

text \<open>\<open>sep.join(xs)\<close>\<close>

fun join :: "string \<Rightarrow> string list \<Rightarrow> string" where
  "join sep [] = []"
| "join sep [x] = x"
| "join sep (x # y # ys) = x @ sep @ join sep (y # ys)"

text \<open>\<open>evolution_to = ", ".join(evo_details["to"]) if evo_details["to"] else ""\<close>\<close>

definition evolution_to :: "evo_entry \<Rightarrow> string" where
  "evolution_to details = (if evo_to details \<noteq> [] then join '', '' (evo_to details) else [])"

section \<open>The CSV file\<close>

definition fieldnames :: "string list" where
  "fieldnames =
     [''id'', ''pokedex_number'', ''name'', ''type_primary'', ''type_secondary'',
      ''hp'', ''attack'', ''defense'', ''special_attack'', ''special_defense'', ''speed'',
      ''height'', ''weight'', ''description'', ''evolution_from'', ''evolution_to'',
      ''image_url'']"

text \<open>\<open>writer.writeheader()\<close>: the field names as a row.\<close>

definition header :: "cell list" where
  "header = map StrCell fieldnames"

text \<open>
  \<open>csv.DictWriter.writerow\<close> with its defaults: a key outside the field names raises, and
  the row holds, for each field name in order, the value under it or the empty string.
\<close>

definition writerow :: "string list \<Rightarrow> (string \<times> cell) list \<Rightarrow> py_error + cell list" where
  "writerow columns rowdict =
     (if \<exists>k \<in> set (map fst rowdict). k \<notin> set columns then Inl ValueError
      else Inr (map (\<lambda>key. case map_of rowdict key of None \<Rightarrow> StrCell [] | Some c \<Rightarrow> c) columns))"

text \<open>The dictionary of lines 100 to 118, with the evolution details of lines 94 to 96.\<close>

definition row_dict ::
  "nat \<Rightarrow> base_info \<Rightarrow> string \<Rightarrow> evo_dict \<Rightarrow> (string \<times> cell) list" where
  "row_dict pokemon_id info descr evo_dict =
     (let pokedex_number = pokemon_id;
          details = evo_details evo_dict (b_name info)
      in [(''id'', IntCell (int pokemon_id)),
          (''pokedex_number'', IntCell (int pokedex_number)),
          (''name'', StrCell (b_name info)),
          (''type_primary'', StrCell (b_type_primary info)),
          (''type_secondary'', StrCell (b_type_secondary info)),
          (''hp'', IntCell (b_hp info)),
          (''attack'', IntCell (b_attack info)),
          (''defense'', IntCell (b_defense info)),
          (''special_attack'', IntCell (b_special_attack info)),
          (''special_defense'', IntCell (b_special_defense info)),
          (''speed'', IntCell (b_speed info)),
          (''height'', FloatCell (b_height info)),
          (''weight'', FloatCell (b_weight info)),
          (''description'', StrCell descr),
          (''evolution_from'', StrCell (evolution_from details)),
          (''evolution_to'', StrCell (evolution_to details)),
          (''image_url'', StrCell (b_image_url info))])"

section \<open>The run\<close>

text \<open>\<open>str(n)\<close> for a natural number: its decimal digits.\<close>

definition digit_char :: "nat \<Rightarrow> char" where
  "digit_char n = ''0123456789'' ! n"

function str :: "nat \<Rightarrow> string" where
  "str n = (if n < 10 then [digit_char n] else str (n div 10) @ [digit_char (n mod 10)])"
  by pat_completeness auto
termination
  by (relation "measure (\<lambda>n. n)") auto

definition pokemon_url :: "nat \<Rightarrow> string" where
  "pokemon_url pokemon_id = ''https://pokeapi.co/api/v2/pokemon/'' @ str pokemon_id @ ''/''"

text \<open>
  One iteration of the loop over the ids (lines 42 to 119).  A response of the wrong shape
  fails at the first member the script reads from it.  The state that an error leaves
  behind is kept with the error.
\<close>

definition process :: "network \<Rightarrow> nat \<Rightarrow> run_state \<Rightarrow> run_state outcome" where
  "process net pokemon_id st =
     (let url = pokemon_url pokemon_id;
          st1 = st\<lparr>requests := requests st @ [FetchPokemon url]\<rparr>
      in case fetch_data net url of
           Inl err \<Rightarrow> Inl (err, st1)
         | Inr (PokemonPayload pokemon_data) \<Rightarrow>
             (case extract_base_info pokemon_data of
                Inl err \<Rightarrow> Inl (err, st1)
              | Inr info \<Rightarrow>
                  (let species_url = p_species_url pokemon_data;
                       st2 = st1\<lparr>requests := requests st1 @ [FetchSpecies species_url]\<rparr>
                   in case fetch_data net species_url of
                        Inl err \<Rightarrow> Inl (err, st2)
                      | Inr (SpeciesPayload species_data) \<Rightarrow>
                          (let descr = description (s_flavor_text_entries species_data)
                           in case get_evolution_chain net (s_evolution_chain_url species_data) st2 of
                                Inl failed \<Rightarrow> Inl failed
                              | Inr (evo_dict, st3) \<Rightarrow>
                                  (case writerow fieldnames
                                          (row_dict pokemon_id info descr evo_dict) of
                                     Inl err \<Rightarrow> Inl (err, st3)
                                   | Inr row \<Rightarrow> Inr (st3\<lparr>csvfile := csvfile st3 @ [row]\<rparr>)))
                      | Inr _ \<Rightarrow> Inl (KeyError ''flavor_text_entries'', st2)))
         | Inr _ \<Rightarrow> Inl (KeyError ''name'', st1))"

text \<open>\<open>for id in range(1, 152)\<close>, ended by the first error.\<close>

fun run_loop :: "network \<Rightarrow> nat list \<Rightarrow> run_state \<Rightarrow> run_state outcome" where
  "run_loop net [] st = Inr st"
| "run_loop net (pokemon_id # ids) st =
     (case process net pokemon_id st of
        Inl failed \<Rightarrow> Inl failed
      | Inr st' \<Rightarrow> run_loop net ids st')"

text \<open>
  The script: the cache starts empty (line 27), the file is opened and the header written
  (lines 30 to 37), then the loop runs.
\<close>

definition initial_state :: run_state where
  "initial_state = \<lparr>evo_cache = Map.empty, csvfile = [header], requests = []\<rparr>"

definition main :: "network \<Rightarrow> run_state outcome" where
  "main net = run_loop net [1..<152] initial_state"

text \<open>The state a run ends in, whether it completes or aborts.\<close>

definition final_state :: "run_state outcome \<Rightarrow> run_state" where
  "final_state r = (case r of Inl (err, st) \<Rightarrow> st | Inr st \<Rightarrow> st)"


section \<open>Example data\<close>

definition eevee_chain :: evolution_chain_data where
  "eevee_chain =
     \<lparr>chain = ChainNode ''eevee''
        [ChainNode ''vaporeon'' [], ChainNode ''jolteon'' [], ChainNode ''flareon'' []]\<rparr>"

definition bulbasaur_chain :: evolution_chain_data where
  "bulbasaur_chain =
     \<lparr>chain = ChainNode ''bulbasaur'' [ChainNode ''ivysaur'' [ChainNode ''venusaur'' []]]\<rparr>"

text \<open>Two trees in which a species name occurs twice.\<close>

definition echo_chain :: evolution_chain_data where
  "echo_chain = \<lparr>chain = ChainNode ''a'' [ChainNode ''a'' []]\<rparr>"

definition loop_chain :: evolution_chain_data where
  "loop_chain = \<lparr>chain = ChainNode ''a'' [ChainNode ''b'' [ChainNode ''a'' []]]\<rparr>"

text \<open>A network that answers one species, one chain and, under every other URL, one
  Pokemon.\<close>

definition net_of ::
  "pokemon_data \<Rightarrow> species_data \<Rightarrow> evolution_chain_data \<Rightarrow> network" where
  "net_of pokemon species chain_data url =
     (if url = p_species_url pokemon then Some (SpeciesPayload species)
      else if url = s_evolution_chain_url species then Some (ChainPayload chain_data)
      else Some (PokemonPayload pokemon))"

definition bulbasaur :: pokemon_data where
  "bulbasaur =
     \<lparr>p_name = ''bulbasaur'',
      p_types = [\<lparr>type_name = ''grass''\<rparr>, \<lparr>type_name = ''poison''\<rparr>],
      p_stats = [\<lparr>stat_name = ''hp'', base_stat = 45\<rparr>,
                 \<lparr>stat_name = ''attack'', base_stat = 49\<rparr>,
                 \<lparr>stat_name = ''defense'', base_stat = 49\<rparr>,
                 \<lparr>stat_name = ''special-attack'', base_stat = 65\<rparr>,
                 \<lparr>stat_name = ''special-defense'', base_stat = 65\<rparr>,
                 \<lparr>stat_name = ''speed'', base_stat = 45\<rparr>],
      p_height = 7,
      p_weight = 69,
      p_front_default = ''official-artwork/1.png'',
      p_species_url = ''https://pokeapi.co/api/v2/pokemon-species/1/''\<rparr>"

definition bulbasaur_entries :: "flavor_text_entry list" where
  "bulbasaur_entries =
     [\<lparr>flavor_text = ''Une graine'', language_name = ''fr'', version_name = ''red''\<rparr>,
      \<lparr>flavor_text = ''A seed'', language_name = ''en'', version_name = ''gold''\<rparr>,
      \<lparr>flavor_text =
         ''A strange seed was'' @ [newline] @ ''planted on its back'' @ [formfeed] @ ''at birth.'',
       language_name = ''en'', version_name = ''red''\<rparr>,
      \<lparr>flavor_text = ''A later entry'', language_name = ''en'', version_name = ''blue''\<rparr>]"

definition bulbasaur_species :: species_data where
  "bulbasaur_species =
     \<lparr>s_flavor_text_entries = bulbasaur_entries,
      s_evolution_chain_url = ''https://pokeapi.co/api/v2/evolution-chain/1/''\<rparr>"

definition demo_net :: network where
  "demo_net = net_of bulbasaur bulbasaur_species bulbasaur_chain"

text \<open>A species with one type, no Red or Blue entry, and a chain that does not name it.\<close>

definition ditto :: pokemon_data where
  "ditto = bulbasaur\<lparr>p_name := ''ditto'', p_types := [\<lparr>type_name = ''normal''\<rparr>]\<rparr>"

definition ditto_species :: species_data where
  "ditto_species =
     \<lparr>s_flavor_text_entries =
        [\<lparr>flavor_text = ''It can transform.'', language_name = ''en'', version_name = ''gold''\<rparr>],
      s_evolution_chain_url = ''https://pokeapi.co/api/v2/evolution-chain/1/''\<rparr>"

definition stray_net :: network where
  "stray_net = net_of ditto ditto_species bulbasaur_chain"

text \<open>Payloads with no type, and with no \<open>speed\<close> stat.\<close>

definition typeless :: pokemon_data where
  "typeless = bulbasaur\<lparr>p_types := []\<rparr>"

definition speedless :: pokemon_data where
  "speedless = bulbasaur\<lparr>p_stats := butlast (p_stats bulbasaur)\<rparr>"

text \<open>What the parser makes of \<open>bulbasaur_chain\<close>, and the extraction of \<open>bulbasaur\<close>.\<close>

definition bulbasaur_dict :: evo_dict where
  "bulbasaur_dict =
     [''bulbasaur'' \<mapsto> \<lparr>evo_from = None, evo_to = [''ivysaur'']\<rparr>,
      ''ivysaur'' \<mapsto> \<lparr>evo_from = Some ''bulbasaur'', evo_to = [''venusaur'']\<rparr>,
      ''venusaur'' \<mapsto> \<lparr>evo_from = Some ''ivysaur'', evo_to = []\<rparr>]"

definition bulbasaur_info :: base_info where
  "bulbasaur_info =
     \<lparr>b_name = ''bulbasaur'', b_type_primary = ''grass'', b_type_secondary = ''poison'',
      b_hp = 45, b_attack = 49, b_defense = 49, b_special_attack = 65,
      b_special_defense = 65, b_speed = 45,
      b_height = TrueDiv 7 10, b_weight = TrueDiv 69 10,
      b_image_url = ''official-artwork/1.png''\<rparr>"

definition ditto_info :: base_info where
  "ditto_info =
     bulbasaur_info\<lparr>b_name := ''ditto'', b_type_primary := ''normal'', b_type_secondary := []\<rparr>"

text \<open>The row that \<open>demo_net\<close> yields for an id.\<close>

definition demo_row :: "nat \<Rightarrow> cell list" where
  "demo_row pokemon_id =
     [IntCell (int pokemon_id), IntCell (int pokemon_id), StrCell ''bulbasaur'',
      StrCell ''grass'', StrCell ''poison'',
      IntCell 45, IntCell 49, IntCell 49, IntCell 65, IntCell 65, IntCell 45,
      FloatCell (TrueDiv 7 10), FloatCell (TrueDiv 69 10),
      StrCell ''A strange seed was planted on its backat birth.'',
      StrCell [], StrCell ''ivysaur'', StrCell ''official-artwork/1.png'']"

section \<open>Properties of the parser\<close>

lemma chain_names_Node:
  "chain_names (ChainNode name evos) = name # concat (map chain_names evos)"
  by (simp add: map_concat comp_def chain_names_def[abs_def])

text \<open>
  The recursion never raises: the subscript of the loop finds the entry that the call
  stored.  It logs the nodes in depth-first order and adds exactly their names as keys.
\<close>

lemma recurse_total:
  "\<exists>d'. recurse_chain t p (d, v) = Inr (d', v @ chain_nodes t)
        \<and> dom d' = dom d \<union> set (chain_names t)"
  "name \<in> dom (fst s) \<Longrightarrow>
     \<exists>d'. recurse_loop name evos s = Inr (d', snd s @ concat (map chain_nodes evos))
        \<and> dom d' = dom (fst s) \<union> set (concat (map chain_names evos))"
proof (induction t p "(d, v)" and name evos s arbitrary: d v
        rule: recurse_chain_recurse_loop.induct)
  case (1 name evos previous d visited)
  let ?d0 = "d(name \<mapsto> \<lparr>evo_from = previous, evo_to = []\<rparr>)"
  have "name \<in> dom (fst (?d0, visited @ [ChainNode name evos]))" by simp
  from 1[OF this, unfolded fst_conv snd_conv] obtain d' where
    r: "recurse_loop name evos (?d0, visited @ [ChainNode name evos]) =
          Inr (d', (visited @ [ChainNode name evos]) @ concat (map chain_nodes evos))"
    and dm: "dom d' = dom ?d0 \<union> set (concat (map chain_names evos))"
    by blast
  have "dom d' = dom d \<union> set (chain_names (ChainNode name evos))"
    unfolding dm chain_names_Node by auto
  with r show ?case by simp
next
  case (2 name s)
  then show ?case by (cases s) auto
next
  case (3 name evo rest d visited)
  from 3(3) obtain e where e: "d name = Some e" by auto
  let ?d1 = "d(name \<mapsto> e\<lparr>evo_to := evo_to e @ [species_name evo]\<rparr>)"
  from 3(1)[OF e] obtain d2 where
    r2: "recurse_chain evo (Some name) (?d1, visited) = Inr (d2, visited @ chain_nodes evo)"
    and dm2: "dom d2 = dom ?d1 \<union> set (chain_names evo)" by blast
  have "name \<in> dom (fst (d2, visited @ chain_nodes evo))" using dm2 by simp
  from 3(2)[OF e r2 this, unfolded fst_conv snd_conv] obtain d3 where
    r3: "recurse_loop name rest (d2, visited @ chain_nodes evo) =
           Inr (d3, (visited @ chain_nodes evo) @ concat (map chain_nodes rest))"
    and dm3: "dom d3 = dom d2 \<union> set (concat (map chain_names rest))"
    by blast
  have "dom d3 = dom d \<union> set (concat (map chain_names (evo # rest)))"
    unfolding dm3 dm2 using e by auto
  with e r2 r3 show ?case by simp
qed

text \<open>
  A key that names no node of the subtree keeps its entry; the key of the node whose
  children the loop walks gets their names appended, when none of their subtrees holds it.
\<close>

lemma recurse_frame:
  "recurse_chain t p (d, v) = Inr (d', v') \<Longrightarrow> k \<notin> set (chain_names t) \<Longrightarrow> d' k = d k"
  "recurse_loop name evos s = Inr s' \<Longrightarrow> k \<notin> set (concat (map chain_names evos)) \<Longrightarrow>
     fst s' k = (if k = name
                 then map_option (\<lambda>e. e\<lparr>evo_to := evo_to e @ map species_name evos\<rparr>) (fst s k)
                 else fst s k)"
proof (induction t p "(d, v)" and name evos s arbitrary: d v d' v' and s'
        rule: recurse_chain_recurse_loop.induct)
  case (1 name evos previous d visited)
  from "1.prems" have k: "k \<noteq> name" "k \<notin> set (concat (map chain_names evos))"
    by (simp_all add: chain_names_Node)
  from "1.prems"(1) have
    "recurse_loop name evos (d(name \<mapsto> \<lparr>evo_from = previous, evo_to = []\<rparr>),
        visited @ [ChainNode name evos]) = Inr (d', v')" by simp
  from "1.hyps"[OF this k(2)] k(1) show ?case by simp
next
  case (2 name s)
  then show ?case by (cases "fst s k") auto
next
  case (3 name evo rest d visited)
  from "3.prems"(1) obtain e where e: "d name = Some e"
    by (cases "d name") auto
  let ?d1 = "d(name \<mapsto> e\<lparr>evo_to := evo_to e @ [species_name evo]\<rparr>)"
  from "3.prems"(1) e obtain d2 v2 where
    r2: "recurse_chain evo (Some name) (?d1, visited) = Inr (d2, v2)"
    and r3: "recurse_loop name rest (d2, v2) = Inr s'"
    by (cases "recurse_chain evo (Some name) (?d1, visited)") auto
  from "3.prems"(2) have
    k: "k \<notin> set (chain_names evo)" "k \<notin> set (concat (map chain_names rest))"
    by simp_all
  have a: "d2 k = ?d1 k" by (rule "3.hyps"(1)[OF e r2 k(1)])
  have b: "fst s' k =
             (if k = name
              then map_option (\<lambda>e. e\<lparr>evo_to := evo_to e @ map species_name rest\<rparr>)
                     (fst (d2, v2) k)
              else fst (d2, v2) k)"
    by (rule "3.hyps"(2)[OF e r2 r3 k(2)])
  from a b e show ?case by (cases "k = name") simp_all
qed

lemma chain_links_names:
  "(nd, q) \<in> set (chain_links t p) \<Longrightarrow> species_name nd \<in> set (chain_names t)"
  by (induction t p rule: chain_links.induct) (auto simp: chain_names_Node)

text \<open>
  With pairwise distinct species names, every node ends with the entry of its own parent
  and its own children.
\<close>

lemma recurse_entries:
  "recurse_chain t p (d, v) = Inr (d', v') \<Longrightarrow> distinct (chain_names t) \<Longrightarrow>
     (nd, q) \<in> set (chain_links t p) \<Longrightarrow>
     d' (species_name nd) = Some \<lparr>evo_from = q, evo_to = map species_name (evolves_to nd)\<rparr>"
  "recurse_loop name evos s = Inr s' \<Longrightarrow> distinct (name # concat (map chain_names evos)) \<Longrightarrow>
     (nd, q) \<in> set (concat (map (\<lambda>evo. chain_links evo (Some name)) evos)) \<Longrightarrow>
     fst s' (species_name nd) =
       Some \<lparr>evo_from = q, evo_to = map species_name (evolves_to nd)\<rparr>"
proof (induction t p "(d, v)" and name evos s arbitrary: d v d' v' and s'
        rule: recurse_chain_recurse_loop.induct)
  case (1 name evos previous d visited)
  let ?d0 = "d(name \<mapsto> \<lparr>evo_from = previous, evo_to = []\<rparr>)"
  from "1.prems"(1) have
    r: "recurse_loop name evos (?d0, visited @ [ChainNode name evos]) = Inr (d', v')" by simp
  from "1.prems"(2) have dist: "distinct (name # concat (map chain_names evos))"
    by (simp add: chain_names_Node)
  from "1.prems"(3) consider
      (root) "nd = ChainNode name evos" "q = previous"
    | (below) "(nd, q) \<in> set (concat (map (\<lambda>evo. chain_links evo (Some name)) evos))"
    by auto
  then show ?case
  proof cases
    case root
    from dist have "name \<notin> set (concat (map chain_names evos))" by simp
    from recurse_frame(2)[OF r this] root show ?thesis by simp
  next
    case below
    from "1.hyps"[OF r dist below] show ?thesis by simp
  qed
next
  case (2 name s)
  then show ?case by simp
next
  case (3 name evo rest d visited)
  from "3.prems"(1) obtain e where e: "d name = Some e"
    by (cases "d name") auto
  let ?d1 = "d(name \<mapsto> e\<lparr>evo_to := evo_to e @ [species_name evo]\<rparr>)"
  from "3.prems"(1) e obtain d2 v2 where
    r2: "recurse_chain evo (Some name) (?d1, visited) = Inr (d2, v2)"
    and r3: "recurse_loop name rest (d2, v2) = Inr s'"
    by (cases "recurse_chain evo (Some name) (?d1, visited)") auto
  from "3.prems"(2) have dist:
    "distinct (chain_names evo)" "distinct (name # concat (map chain_names rest))"
    "name \<notin> set (chain_names evo)"
    "set (chain_names evo) \<inter> set (concat (map chain_names rest)) = {}"
    by auto
  from "3.prems"(3) consider
      (first) "(nd, q) \<in> set (chain_links evo (Some name))"
    | (later) "(nd, q) \<in> set (concat (map (\<lambda>evo. chain_links evo (Some name)) rest))"
    by auto
  then show ?case
  proof cases
    case first
    have a: "d2 (species_name nd) =
               Some \<lparr>evo_from = q, evo_to = map species_name (evolves_to nd)\<rparr>"
      by (rule "3.hyps"(1)[OF e r2 dist(1) first])
    from chain_links_names[OF first] dist(3,4) have
      k: "species_name nd \<noteq> name" "species_name nd \<notin> set (concat (map chain_names rest))"
      by auto
    from recurse_frame(2)[OF r3 k(2)] k(1) a show ?thesis by simp
  next
    case later
    show ?thesis by (rule "3.hyps"(2)[OF e r2 r3 dist(2) later])
  qed
qed

lemma chain_links_nodes: "map fst (chain_links t p) = chain_nodes t"
  by (induction t p rule: chain_links.induct) (simp add: map_concat comp_def cong: map_cong)

lemma chain_links_root: "(t, p) \<in> set (chain_links t p)"
  by (cases t) simp

lemma chain_links_child:
  "parent \<in> set (chain_nodes t) \<Longrightarrow> child \<in> set (evolves_to parent) \<Longrightarrow>
     (child, Some (species_name parent)) \<in> set (chain_links t p)"
proof (induction t p rule: chain_links.induct)
  case (1 name evos previous)
  from "1.prems"(1) consider
      (root) "parent = ChainNode name evos"
    | (below) evo where "evo \<in> set evos" "parent \<in> set (chain_nodes evo)"
    by auto
  then show ?case
  proof cases
    case root
    with "1.prems"(2) have "child \<in> set evos" by simp
    moreover have "(child, Some name) \<in> set (chain_links child (Some name))"
      by (rule chain_links_root)
    ultimately show ?thesis using root by auto
  next
    case below
    from "1.IH"[OF below(1) below(2) "1.prems"(2)] below(1) show ?thesis by auto
  qed
qed

lemma parse_evolution_chain_entries:
  assumes "distinct (chain_names (chain c))"
  shows "\<exists>d. recurse_chain (chain c) None (Map.empty, []) = Inr (d, chain_nodes (chain c))
            \<and> parse_evolution_chain c = Inr d
            \<and> dom d = set (chain_names (chain c))
            \<and> (\<forall>nd q. (nd, q) \<in> set (chain_links (chain c) None) \<longrightarrow>
                  d (species_name nd) =
                    Some \<lparr>evo_from = q, evo_to = map species_name (evolves_to nd)\<rparr>)"
proof -
  from recurse_total(1)[of "chain c" None Map.empty "[]"] obtain d where
    r: "recurse_chain (chain c) None (Map.empty, []) = Inr (d, chain_nodes (chain c))"
    and dm: "dom d = set (chain_names (chain c))" by auto
  from r have "parse_evolution_chain c = Inr d" by (simp add: parse_evolution_chain_def)
  moreover have "d (species_name nd) =
      Some \<lparr>evo_from = q, evo_to = map species_name (evolves_to nd)\<rparr>"
    if "(nd, q) \<in> set (chain_links (chain c) None)" for nd q
    by (rule recurse_entries(1)[OF r assms that])
  ultimately show ?thesis using r dm by blast
qed

text \<open>
  Claim C1, with the \<open>to\<close> entries restricted to trees whose species names are pairwise
  distinct: on every tree the parser does not fail, it calls \<open>recurse_chain\<close> on the nodes
  of the tree in depth-first order, each node once, and the keys of the result are exactly
  the species names of the nodes; when the names are pairwise distinct, the \<open>to\<close> entry
  of every node is the list of the species names of its children, in their order.
\<close>

theorem parse_evolution_chain_to:
  "\<exists>d. recurse_chain (chain c) None (Map.empty, []) = Inr (d, chain_nodes (chain c))
      \<and> parse_evolution_chain c = Inr d
      \<and> dom d = species_name ` set (chain_nodes (chain c))
      \<and> (distinct (map species_name (chain_nodes (chain c))) \<longrightarrow>
           (\<forall>nd \<in> set (chain_nodes (chain c)).
              map_option evo_to (d (species_name nd)) =
                Some (map species_name (evolves_to nd))))"
proof -
  from recurse_total(1)[of "chain c" None Map.empty "[]"] obtain d where
    r: "recurse_chain (chain c) None (Map.empty, []) = Inr (d, chain_nodes (chain c))"
    and dm: "dom d = set (chain_names (chain c))" by auto
  from r have p: "parse_evolution_chain c = Inr d" by (simp add: parse_evolution_chain_def)
  have "map_option evo_to (d (species_name nd)) = Some (map species_name (evolves_to nd))"
    if dist: "distinct (map species_name (chain_nodes (chain c)))"
      and nd: "nd \<in> set (chain_nodes (chain c))" for nd
  proof -
    from dist have dist': "distinct (chain_names (chain c))" by (simp add: chain_names_def)
    have "set (chain_nodes (chain c)) = fst ` set (chain_links (chain c) None)"
      unfolding chain_links_nodes[of "chain c" None, symmetric] by simp
    with nd obtain q where "(nd, q) \<in> set (chain_links (chain c) None)" by auto
    from recurse_entries(1)[OF r dist' this] show ?thesis by simp
  qed
  with r p dm show ?thesis by (auto simp: chain_names_def)
qed

theorem parse_evolution_chain_to_witness:
  "distinct (map species_name (chain_nodes (chain eevee_chain)))
   \<and> map_sum id (map_option evo_to) (parsed_entry eevee_chain ''eevee'') =
       Inr (Some [''vaporeon'', ''jolteon'', ''flareon''])
   \<and> map_sum id (map_option evo_to) (parsed_entry eevee_chain ''jolteon'') = Inr (Some [])"
proof -
  have h: "distinct (map species_name (chain_nodes (chain eevee_chain)))"
    by (simp add: eevee_chain_def)
  from parse_evolution_chain_to[of eevee_chain] h obtain d where
    p: "parse_evolution_chain eevee_chain = Inr d"
    and t: "\<forall>nd \<in> set (chain_nodes (chain eevee_chain)).
              map_option evo_to (d (species_name nd)) = Some (map species_name (evolves_to nd))"
    by blast
  from t have
    "map_option evo_to (d ''eevee'') = Some [''vaporeon'', ''jolteon'', ''flareon'']"
    "map_option evo_to (d ''jolteon'') = Some []"
    by (simp_all add: eevee_chain_def)
  with p h show ?thesis by (simp add: parsed_entry_def)
qed

text \<open>
  Claim C1 as stated fails on a tree in which a name occurs twice: the root of
  \<open>echo_chain\<close> has one child, but the second node of the same name replaces the entry, and
  the \<open>to\<close> list under that name ends empty.
\<close>

theorem parse_evolution_chain_to_counterexample:
  "chain echo_chain \<in> set (chain_nodes (chain echo_chain))
   \<and> map species_name (evolves_to (chain echo_chain)) = [''a'']
   \<and> map_sum id (map_option evo_to) (parsed_entry echo_chain (species_name (chain echo_chain))) =
       Inr (Some [])"
  by (simp add: echo_chain_def parsed_entry_def parse_evolution_chain_def)

text \<open>
  Claim C2, for trees whose species names are pairwise distinct: the \<open>from\<close> entry of the
  root is absent, and the \<open>from\<close> entry of every child of every node is the species name of
  that node.
\<close>

theorem parse_evolution_chain_from:
  assumes "distinct (map species_name (chain_nodes (chain c)))"
  shows "\<exists>d. parse_evolution_chain c = Inr d
            \<and> map_option evo_from (d (species_name (chain c))) = Some None
            \<and> (\<forall>parent \<in> set (chain_nodes (chain c)). \<forall>child \<in> set (evolves_to parent).
                  map_option evo_from (d (species_name child)) =
                    Some (Some (species_name parent)))"
proof -
  from assms have "distinct (chain_names (chain c))" by (simp add: chain_names_def)
  then obtain d where
    p: "parse_evolution_chain c = Inr d"
    and en: "\<And>nd q. (nd, q) \<in> set (chain_links (chain c) None) \<Longrightarrow>
        d (species_name nd) = Some \<lparr>evo_from = q, evo_to = map species_name (evolves_to nd)\<rparr>"
    using parse_evolution_chain_entries[of c] by blast
  from en[OF chain_links_root] have
    "map_option evo_from (d (species_name (chain c))) = Some None" by simp
  moreover have
    "map_option evo_from (d (species_name child)) = Some (Some (species_name parent))"
    if "parent \<in> set (chain_nodes (chain c))" "child \<in> set (evolves_to parent)"
    for parent child
    using en[OF chain_links_child[OF that]] by simp
  ultimately show ?thesis using p by blast
qed

theorem parse_evolution_chain_from_witness:
  "distinct (map species_name (chain_nodes (chain bulbasaur_chain)))
   \<and> map_sum id (map_option evo_from) (parsed_entry bulbasaur_chain ''bulbasaur'') =
       Inr (Some None)
   \<and> map_sum id (map_option evo_from) (parsed_entry bulbasaur_chain ''ivysaur'') =
       Inr (Some (Some ''bulbasaur''))
   \<and> map_sum id (map_option evo_from) (parsed_entry bulbasaur_chain ''venusaur'') =
       Inr (Some (Some ''ivysaur''))"
proof -
  have h: "distinct (map species_name (chain_nodes (chain bulbasaur_chain)))"
    by (simp add: bulbasaur_chain_def)
  from parse_evolution_chain_from[OF h] obtain d where
    p: "parse_evolution_chain bulbasaur_chain = Inr d"
    and r: "map_option evo_from (d (species_name (chain bulbasaur_chain))) = Some None"
    and t: "\<forall>parent \<in> set (chain_nodes (chain bulbasaur_chain)).
              \<forall>child \<in> set (evolves_to parent).
                map_option evo_from (d (species_name child)) = Some (Some (species_name parent))"
    by blast
  from r t have
    "map_option evo_from (d ''bulbasaur'') = Some None"
    "map_option evo_from (d ''ivysaur'') = Some (Some ''bulbasaur'')"
    "map_option evo_from (d ''venusaur'') = Some (Some ''ivysaur'')"
    by (simp_all add: bulbasaur_chain_def)
  with p h show ?thesis by (simp add: parsed_entry_def)
qed

text \<open>
  Claim C2 as stated fails on a tree in which a name occurs twice: in \<open>loop_chain\<close> the
  grandchild has the name of the root, and the entry under that name ends with the
  grandchild's parent as \<open>from\<close>.
\<close>

theorem parse_evolution_chain_from_counterexample:
  "species_name (chain loop_chain) = ''a''
   \<and> map_sum id (map_option evo_from) (parsed_entry loop_chain ''a'') = Inr (Some (Some ''b''))"
  by (simp add: loop_chain_def parsed_entry_def parse_evolution_chain_def)

section \<open>Properties of the extraction\<close>

lemma dom_stats_fold:
  "dom (foldl (\<lambda>stats s. stats(stat_name s \<mapsto> base_stat s)) m ss) = dom m \<union> stat_name ` set ss"
  by (induction ss arbitrary: m) auto

lemma dom_stats_of: "dom (stats_of p) = stat_name ` set (p_stats p)"
  by (simp add: stats_of_def dom_stats_fold)

lemma extract_base_info_Inr:
  assumes "extract_base_info p = Inr info"
  shows "p_types p \<noteq> []"
    and "set required_stats \<subseteq> dom (stats_of p)"
    and "b_name info = p_name p"
    and "b_type_primary info = type_name (p_types p ! 0)"
    and "b_type_secondary info =
           (if 2 \<le> length (p_types p) then type_name (p_types p ! 1) else [])"
  using assms
  by (auto simp: extract_base_info_def Let_def bind_def type_primary_def type_secondary_def
      types_of_def subscript_def required_stats_def Suc_le_eq
      split: sum.splits list.splits option.splits)

lemma extract_base_info_Inl:
  assumes "extract_base_info p = Inl err"
  shows "(p_types p = [] \<and> err = IndexError)
       \<or> (p_types p \<noteq> [] \<and>
            (\<exists>k \<in> set required_stats. stats_of p k = None \<and> err = KeyError k))"
  using assms
  by (auto simp: extract_base_info_def Let_def bind_def type_primary_def type_secondary_def
      types_of_def subscript_def required_stats_def
      split: sum.splits list.splits option.splits)

text \<open>Height and weight are the raw values over 10, by Python's division.\<close>

lemma extract_base_info_units:
  assumes "extract_base_info p = Inr info"
  shows "b_height info = TrueDiv (p_height p) 10" and "b_weight info = TrueDiv (p_weight p) 10"
  using assms
  by (auto simp: extract_base_info_def Let_def bind_def split: sum.splits)

lemma extract_base_info_no_types: "p_types p = [] \<Longrightarrow> extract_base_info p = Inl IndexError"
  by (simp add: extract_base_info_def types_of_def type_primary_def bind_def)

section \<open>Properties of one iteration and of the loop\<close>

lemma writerow_row_dict:
  "writerow fieldnames (row_dict pokemon_id info descr evo_dict) =
     Inr (map snd (row_dict pokemon_id info descr evo_dict))"
  by (simp add: writerow_def fieldnames_def row_dict_def Let_def)

lemma process_Inr:
  assumes "net (pokemon_url pokemon_id) = Some (PokemonPayload pokemon_data)"
    and "extract_base_info pokemon_data = Inr info"
    and "net (p_species_url pokemon_data) = Some (SpeciesPayload species_data)"
    and "get_evolution_chain net (s_evolution_chain_url species_data)
           (st\<lparr>requests := requests st @
                 [FetchPokemon (pokemon_url pokemon_id),
                  FetchSpecies (p_species_url pokemon_data)]\<rparr>)
         = Inr (evo_dict, st3)"
  shows "process net pokemon_id st =
           Inr (st3\<lparr>csvfile := csvfile st3 @
                  [map snd (row_dict pokemon_id info
                     (description (s_flavor_text_entries species_data)) evo_dict)]\<rparr>)"
  using assms by (simp add: process_def fetch_data_def Let_def writerow_row_dict)

lemma process_extract_Inl:
  assumes "net (pokemon_url pokemon_id) = Some (PokemonPayload p)"
    and "extract_base_info p = Inl err"
  shows "process net pokemon_id st =
           Inl (err, st\<lparr>requests := requests st @ [FetchPokemon (pokemon_url pokemon_id)]\<rparr>)"
  using assms by (simp add: process_def fetch_data_def Let_def)

lemma run_loop_abort:
  "i \<in> set ids \<Longrightarrow> (\<And>st. \<exists>failed. process net i st = Inl failed) \<Longrightarrow>
     \<exists>failed. run_loop net ids st = Inl failed"
proof (induction ids arbitrary: st)
  case Nil
  then show ?case by simp
next
  case (Cons j ids)
  show ?case
  proof (cases "process net j st")
    case (Inl failed)
    then show ?thesis by simp
  next
    case (Inr st')
    with Cons.prems(2)[of st] have "i \<noteq> j" by auto
    with Cons.prems(1) have "i \<in> set ids" by simp
    from Cons.IH[OF this Cons.prems(2)] Inr show ?thesis by simp
  qed
qed

lemma main_abort:
  assumes "pokemon_id \<in> {1..151}"
    and "\<And>st. \<exists>failed. process net pokemon_id st = Inl failed"
  shows "\<exists>failed. main net = Inl failed"
proof -
  from assms(1) have "pokemon_id \<in> set [1..<152]" by auto
  from run_loop_abort[OF this assms(2)] show ?thesis by (simp add: main_def)
qed

lemma row_dict_cells:
  "length (row_dict pokemon_id info descr evo_dict) = 17"
  "map snd (row_dict pokemon_id info descr evo_dict) ! 0 = IntCell (int pokemon_id)"
  "map snd (row_dict pokemon_id info descr evo_dict) ! 13 = StrCell descr"
  "map snd (row_dict pokemon_id info descr evo_dict) ! 14 =
     StrCell (evolution_from (evo_details evo_dict (b_name info)))"
  "map snd (row_dict pokemon_id info descr evo_dict) ! 15 =
     StrCell (evolution_to (evo_details evo_dict (b_name info)))"
  by (simp_all add: row_dict_def Let_def)

lemma replace_by_char: "replace s old [c] = map (\<lambda>x. if x = old then c else x) s"
  by (induction s) (simp_all add: replace_def)

lemma replace_by_nothing: "replace s old [] = filter (\<lambda>x. x \<noteq> old) s"
  by (induction s) (simp_all add: replace_def)

lemma description_find:
  "description entries =
     (case find red_blue_english entries of
        None \<Rightarrow> []
      | Some entry \<Rightarrow> replace (replace (flavor_text entry) newline '' '') formfeed [])"
  by (induction entries) simp_all

lemma join_concat: "join sep (x # xs) = x @ concat (map (\<lambda>y. sep @ y) xs)"
  by (induction sep "x # xs" arbitrary: x xs rule: join.induct) simp_all

section \<open>Properties of the cache\<close>

lemma get_evolution_chain_hit:
  "evo_cache st url = Some evo_dict \<Longrightarrow> get_evolution_chain net url st = Inr (evo_dict, st)"
  by (simp add: get_evolution_chain_def)

lemma get_evolution_chain_miss:
  assumes "evo_cache st url = None"
  shows "get_evolution_chain net url st = Inr (evo_dict, st') \<Longrightarrow>
           (\<exists>c. net url = Some (ChainPayload c) \<and> parse_evolution_chain c = Inr evo_dict)
           \<and> st' = st\<lparr>requests := requests st @ [FetchChain url],
                       evo_cache := (evo_cache st)(url \<mapsto> evo_dict)\<rparr>"
    and "get_evolution_chain net url st = Inl (err, st') \<Longrightarrow>
           st' = st\<lparr>requests := requests st @ [FetchChain url]\<rparr>"
  using assms
  by (auto simp: get_evolution_chain_def fetch_data_def Let_def
      split: option.splits sum.splits payload.splits)

lemma get_evolution_chain_Inl_miss:
  "get_evolution_chain net url st = Inl failed \<Longrightarrow> evo_cache st url = None"
  by (auto simp: get_evolution_chain_def split: option.splits)

lemma get_evolution_chain_Inr:
  assumes "get_evolution_chain net url st = Inr (evo_dict, st')"
  shows "evo_cache st' = (evo_cache st)(url \<mapsto> evo_dict)"
    and "evo_cache st url = None \<or> evo_cache st url = Some evo_dict"
    and "requests st' =
           requests st @ (if evo_cache st url = None then [FetchChain url] else [])"
    and "csvfile st' = csvfile st"
proof -
  show "evo_cache st url = None \<or> evo_cache st url = Some evo_dict"
    using assms by (cases "evo_cache st url") (simp_all add: get_evolution_chain_hit)
  show "evo_cache st' = (evo_cache st)(url \<mapsto> evo_dict)"
  proof (cases "evo_cache st url")
    case None
    from get_evolution_chain_miss(1)[OF None assms] show ?thesis by simp
  next
    case (Some d)
    with assms have "d = evo_dict" "st' = st" by (simp_all add: get_evolution_chain_hit)
    with Some show ?thesis by (auto simp: fun_upd_idem)
  qed
  show "requests st' =
          requests st @ (if evo_cache st url = None then [FetchChain url] else [])"
  proof (cases "evo_cache st url")
    case None
    from get_evolution_chain_miss(1)[OF None assms] None show ?thesis by simp
  next
    case (Some d)
    with assms show ?thesis by (simp add: get_evolution_chain_hit)
  qed
  show "csvfile st' = csvfile st"
  proof (cases "evo_cache st url")
    case None
    from get_evolution_chain_miss(1)[OF None assms] show ?thesis by simp
  next
    case (Some d)
    with assms show ?thesis by (simp add: get_evolution_chain_hit)
  qed
qed

text \<open>What a completed iteration has done to the state.\<close>

lemma process_Inr_state:
  assumes "process net pokemon_id st = Inr st'"
  shows "\<exists>url evo_dict species_url row.
           evo_cache st' = (evo_cache st)(url \<mapsto> evo_dict)
           \<and> (evo_cache st url = None \<or> evo_cache st url = Some evo_dict)
           \<and> requests st' =
               requests st @ [FetchPokemon (pokemon_url pokemon_id), FetchSpecies species_url]
                 @ (if evo_cache st url = None then [FetchChain url] else [])
           \<and> csvfile st' = csvfile st @ [row]
           \<and> length row = 17 \<and> row ! 0 = IntCell (int pokemon_id)"
proof -
  from assms have
    "\<exists>(pokemon_data :: pokemon_data) info (species_data :: species_data) evo_dict st3.
       get_evolution_chain net (s_evolution_chain_url species_data)
          (st\<lparr>requests := requests st @
                [FetchPokemon (pokemon_url pokemon_id),
                 FetchSpecies (p_species_url pokemon_data)]\<rparr>) = Inr (evo_dict, st3)
       \<and> st' = st3\<lparr>csvfile := csvfile st3 @
              [map snd (row_dict pokemon_id info
                 (description (s_flavor_text_entries species_data)) evo_dict)]\<rparr>"
    by (simp add: process_def Let_def writerow_row_dict
        split: sum.splits payload.splits prod.splits) blast
  then obtain pokemon_data :: pokemon_data and info and species_data :: species_data
    and evo_dict st3 where
    g: "get_evolution_chain net (s_evolution_chain_url species_data)
          (st\<lparr>requests := requests st @
                [FetchPokemon (pokemon_url pokemon_id),
                 FetchSpecies (p_species_url pokemon_data)]\<rparr>) = Inr (evo_dict, st3)"
    and s: "st' = st3\<lparr>csvfile := csvfile st3 @
              [map snd (row_dict pokemon_id info
                 (description (s_flavor_text_entries species_data)) evo_dict)]\<rparr>"
    by blast
  from get_evolution_chain_Inr[OF g] s show ?thesis
    by (auto simp: row_dict_cells intro!: exI)
qed

text \<open>What an aborted iteration has done to the state.\<close>

lemma process_Inl_state:
  assumes "process net pokemon_id st = Inl (err, st')"
  shows "evo_cache st' = evo_cache st \<and> csvfile st' = csvfile st
         \<and> (\<exists>extra. requests st' = requests st @ extra
               \<and> (\<forall>url. count_list extra (FetchChain url)
                           \<le> (if evo_cache st url = None then 1 else 0)))"
proof -
  let ?st1 = "st\<lparr>requests := requests st @ [FetchPokemon (pokemon_url pokemon_id)]\<rparr>"
  from assms consider
      (early) "st' = ?st1"
    | (species) species_url where
        "st' = ?st1\<lparr>requests := requests ?st1 @ [FetchSpecies species_url]\<rparr>"
    | (chain) species_url url where
        "get_evolution_chain net url
           (?st1\<lparr>requests := requests ?st1 @ [FetchSpecies species_url]\<rparr>) = Inl (err, st')"
    by (auto simp: process_def Let_def writerow_row_dict
        split: sum.splits payload.splits prod.splits)
  then show ?thesis
  proof cases
    case early
    then show ?thesis by simp
  next
    case species
    then show ?thesis by simp
  next
    case chain
    let ?st2 = "?st1\<lparr>requests := requests ?st1 @ [FetchSpecies species_url]\<rparr>"
    from get_evolution_chain_Inl_miss[OF chain] have m: "evo_cache ?st2 url = None" .
    from get_evolution_chain_miss(2)[OF m chain] have
      "st' = ?st2\<lparr>requests := requests ?st2 @ [FetchChain url]\<rparr>" .
    with m show ?thesis by simp
  qed
qed

text \<open>
  The invariant of the loop: a chain URL has been requested once if it is a key of the
  cache, and never otherwise.
\<close>

lemma process_Inr_invariant:
  assumes "process net pokemon_id st = Inr st'"
    and "\<forall>url. count_list (requests st) (FetchChain url)
                 = (if url \<in> dom (evo_cache st) then 1 else 0)"
  shows "\<forall>url. count_list (requests st') (FetchChain url)
                 = (if url \<in> dom (evo_cache st') then 1 else 0)"
    and "evo_cache st \<subseteq>\<^sub>m evo_cache st'"
proof -
  from process_Inr_state[OF assms(1)] obtain u evo_dict species_url where
    c: "evo_cache st' = (evo_cache st)(u \<mapsto> evo_dict)"
    and h: "evo_cache st u = None \<or> evo_cache st u = Some evo_dict"
    and r: "requests st' =
              requests st @ [FetchPokemon (pokemon_url pokemon_id), FetchSpecies species_url]
                @ (if evo_cache st u = None then [FetchChain u] else [])"
    by blast
  from c h show "evo_cache st \<subseteq>\<^sub>m evo_cache st'"
    by (auto simp: map_le_def)
  show "\<forall>url. count_list (requests st') (FetchChain url)
                 = (if url \<in> dom (evo_cache st') then 1 else 0)"
  proof
    fix url
    from assms(2) have "count_list (requests st) (FetchChain url)
                 = (if url \<in> dom (evo_cache st) then 1 else 0)" ..
    with c h r show "count_list (requests st') (FetchChain url)
                 = (if url \<in> dom (evo_cache st') then 1 else 0)"
      by (auto simp: domIff)
  qed
qed

lemma run_loop_fetch_once:
  assumes "\<forall>url. count_list (requests st) (FetchChain url)
                 = (if url \<in> dom (evo_cache st) then 1 else 0)"
  shows "count_list (requests (final_state (run_loop net ids st))) (FetchChain url) \<le> 1
         \<and> evo_cache st \<subseteq>\<^sub>m evo_cache (final_state (run_loop net ids st))"
  using assms
proof (induction ids arbitrary: st)
  case Nil
  then show ?case by (simp add: final_state_def)
next
  case (Cons i ids)
  show ?case
  proof (cases "process net i st")
    case (Inl failed)
    obtain err st' where f: "failed = (err, st')" by (cases failed)
    from process_Inl_state[OF Inl[unfolded f]] obtain extra where
      "evo_cache st' = evo_cache st" "requests st' = requests st @ extra"
      "count_list extra (FetchChain url) \<le> (if evo_cache st url = None then 1 else 0)"
      by blast
    moreover from Cons.prems have "count_list (requests st) (FetchChain url)
                 = (if url \<in> dom (evo_cache st) then 1 else 0)" ..
    ultimately show ?thesis using Inl f
      by (auto simp: final_state_def domIff split: if_splits)
  next
    case (Inr st')
    from process_Inr_invariant[OF Inr Cons.prems] have
      i: "\<forall>url. count_list (requests st') (FetchChain url)
                 = (if url \<in> dom (evo_cache st') then 1 else 0)"
      and m: "evo_cache st \<subseteq>\<^sub>m evo_cache st'" .
    from Cons.IH[OF i] m Inr show ?thesis
      by (auto intro: map_le_trans)
  qed
qed

lemma process_cache_grows: "evo_cache st \<subseteq>\<^sub>m evo_cache (final_state (process net pokemon_id st))"
proof (cases "process net pokemon_id st")
  case (Inl failed)
  obtain err st' where f: "failed = (err, st')" by (cases failed)
  from process_Inl_state[OF Inl[unfolded f]] Inl f show ?thesis
    by (simp add: final_state_def)
next
  case (Inr st')
  from process_Inr_state[OF Inr] obtain u evo_dict where
    "evo_cache st' = (evo_cache st)(u \<mapsto> evo_dict)"
    "evo_cache st u = None \<or> evo_cache st u = Some evo_dict" by blast
  then have "evo_cache st \<subseteq>\<^sub>m evo_cache st'" by (auto simp: map_le_def)
  with Inr show ?thesis by (simp add: final_state_def)
qed

lemma run_loop_cache_grows: "evo_cache st \<subseteq>\<^sub>m evo_cache (final_state (run_loop net ids st))"
proof (induction ids arbitrary: st)
  case Nil
  then show ?case by (simp add: final_state_def)
next
  case (Cons i ids)
  show ?case
  proof (cases "process net i st")
    case (Inl failed)
    with process_cache_grows[of st net i] show ?thesis by simp
  next
    case (Inr st')
    with process_cache_grows[of st net i] have "evo_cache st \<subseteq>\<^sub>m evo_cache st'"
      by (simp add: final_state_def)
    with Cons.IH[of st'] Inr show ?thesis by (auto intro: map_le_trans)
  qed
qed

lemma run_loop_csvfile:
  "run_loop net ids st = Inr st' \<Longrightarrow>
     \<exists>rows. csvfile st' = csvfile st @ rows
        \<and> map (\<lambda>row. row ! 0) rows = map (\<lambda>i. IntCell (int i)) ids
        \<and> (\<forall>row \<in> set rows. length row = 17)"
proof (induction ids arbitrary: st)
  case Nil
  then show ?case by simp
next
  case (Cons i ids)
  from Cons.prems obtain st1 where
    p: "process net i st = Inr st1" and r: "run_loop net ids st1 = Inr st'"
    by (cases "process net i st") auto
  from process_Inr_state[OF p] obtain row where
    row: "csvfile st1 = csvfile st @ [row]" "length row = 17" "row ! 0 = IntCell (int i)"
    by blast
  from Cons.IH[OF r] obtain rows where
    rows: "csvfile st' = csvfile st1 @ rows"
      "map (\<lambda>row. row ! 0) rows = map (\<lambda>i. IntCell (int i)) ids"
      "\<forall>row \<in> set rows. length row = 17" by blast
  from row rows have
    "csvfile st' = csvfile st @ (row # rows)
     \<and> map (\<lambda>row. row ! 0) (row # rows) = map (\<lambda>i. IntCell (int i)) (i # ids)
     \<and> (\<forall>row \<in> set (row # rows). length row = 17)" by simp
  then show ?case by blast
qed

section \<open>The example networks\<close>

lemma parse_bulbasaur_chain: "parse_evolution_chain bulbasaur_chain = Inr bulbasaur_dict"
  by (simp add: bulbasaur_chain_def parse_evolution_chain_def bulbasaur_dict_def)

lemma extract_bulbasaur: "extract_base_info bulbasaur = Inr bulbasaur_info"
  by (simp add: bulbasaur_def bulbasaur_info_def extract_base_info_def types_of_def
      type_primary_def type_secondary_def stats_of_def subscript_def bind_def)

lemma extract_ditto: "extract_base_info ditto = Inr ditto_info"
  by (simp add: ditto_def bulbasaur_def ditto_info_def bulbasaur_info_def
      extract_base_info_def types_of_def type_primary_def type_secondary_def stats_of_def
      subscript_def bind_def)

lemma net_of_pokemon_url:
  assumes "p_species_url pokemon = ''https://pokeapi.co/api/v2/pokemon-species/1/''"
    and "s_evolution_chain_url species = ''https://pokeapi.co/api/v2/evolution-chain/1/''"
  shows "net_of pokemon species chain_data (pokemon_url pokemon_id)
           = Some (PokemonPayload pokemon)"
    and "net_of pokemon species chain_data (p_species_url pokemon)
           = Some (SpeciesPayload species)"
    and "net_of pokemon species chain_data (s_evolution_chain_url species)
           = Some (ChainPayload chain_data)"
  using assms by (simp_all add: net_of_def pokemon_url_def)

lemma description_bulbasaur:
  "description bulbasaur_entries = ''A strange seed was planted on its backat birth.''"
  by (simp add: bulbasaur_entries_def red_blue_english_def replace_def newline_def
      formfeed_def)

lemma demo_row_dict:
  "map snd (row_dict pokemon_id bulbasaur_info (description bulbasaur_entries) bulbasaur_dict)
     = demo_row pokemon_id"
  by (simp add: description_bulbasaur row_dict_def bulbasaur_info_def bulbasaur_dict_def
      demo_row_def evo_details_def evolution_from_def evolution_to_def)

lemma demo_process_hit:
  assumes "evo_cache st ''https://pokeapi.co/api/v2/evolution-chain/1/'' = Some bulbasaur_dict"
  shows "process demo_net pokemon_id st =
           Inr (st\<lparr>requests := requests st @
                    [FetchPokemon (pokemon_url pokemon_id),
                     FetchSpecies ''https://pokeapi.co/api/v2/pokemon-species/1/''],
                  csvfile := csvfile st @ [demo_row pokemon_id]\<rparr>)"
proof -
  let ?st2 = "st\<lparr>requests := requests st @
                [FetchPokemon (pokemon_url pokemon_id), FetchSpecies (p_species_url bulbasaur)]\<rparr>"
  have u: "p_species_url bulbasaur = ''https://pokeapi.co/api/v2/pokemon-species/1/''"
    "s_evolution_chain_url bulbasaur_species = ''https://pokeapi.co/api/v2/evolution-chain/1/''"
    by (simp_all add: bulbasaur_def bulbasaur_species_def)
  have g: "get_evolution_chain demo_net (s_evolution_chain_url bulbasaur_species) ?st2
             = Inr (bulbasaur_dict, ?st2)"
    using assms by (simp add: get_evolution_chain_hit u)
  have "process demo_net pokemon_id st =
          Inr (?st2\<lparr>csvfile := csvfile ?st2 @
                 [map snd (row_dict pokemon_id bulbasaur_info
                    (description (s_flavor_text_entries bulbasaur_species)) bulbasaur_dict)]\<rparr>)"
    unfolding demo_net_def
    by (rule process_Inr[OF net_of_pokemon_url(1)[OF u] extract_bulbasaur
          net_of_pokemon_url(2)[OF u] g[unfolded demo_net_def]])
  then show ?thesis by (simp add: demo_row_dict bulbasaur_species_def u)
qed

lemma demo_run_hit:
  "evo_cache st ''https://pokeapi.co/api/v2/evolution-chain/1/'' = Some bulbasaur_dict \<Longrightarrow>
   run_loop demo_net ids st =
     Inr (st\<lparr>requests := requests st @
              concat (map (\<lambda>i. [FetchPokemon (pokemon_url i),
                                  FetchSpecies ''https://pokeapi.co/api/v2/pokemon-species/1/''])
                        ids),
            csvfile := csvfile st @ map demo_row ids\<rparr>)"
proof (induction ids arbitrary: st)
  case Nil
  then show ?case by simp
next
  case (Cons i ids)
  let ?st' = "st\<lparr>requests := requests st @
                 [FetchPokemon (pokemon_url i),
                  FetchSpecies ''https://pokeapi.co/api/v2/pokemon-species/1/''],
               csvfile := csvfile st @ [demo_row i]\<rparr>"
  from Cons.prems have
    "evo_cache ?st' ''https://pokeapi.co/api/v2/evolution-chain/1/'' = Some bulbasaur_dict"
    by simp
  from Cons.IH[OF this] demo_process_hit[OF Cons.prems, of i] show ?case by simp
qed

lemma demo_process_miss:
  "process demo_net pokemon_id initial_state =
     Inr \<lparr>evo_cache = [''https://pokeapi.co/api/v2/evolution-chain/1/'' \<mapsto> bulbasaur_dict],
          csvfile = [header, demo_row pokemon_id],
          requests = [FetchPokemon (pokemon_url pokemon_id),
                      FetchSpecies ''https://pokeapi.co/api/v2/pokemon-species/1/'',
                      FetchChain ''https://pokeapi.co/api/v2/evolution-chain/1/'']\<rparr>"
proof -
  let ?st2 = "initial_state\<lparr>requests := requests initial_state @
                [FetchPokemon (pokemon_url pokemon_id), FetchSpecies (p_species_url bulbasaur)]\<rparr>"
  have u: "p_species_url bulbasaur = ''https://pokeapi.co/api/v2/pokemon-species/1/''"
    "s_evolution_chain_url bulbasaur_species = ''https://pokeapi.co/api/v2/evolution-chain/1/''"
    by (simp_all add: bulbasaur_def bulbasaur_species_def)
  have n: "demo_net (s_evolution_chain_url bulbasaur_species) = Some (ChainPayload bulbasaur_chain)"
    unfolding demo_net_def by (rule net_of_pokemon_url(3)[OF u])
  have g: "get_evolution_chain demo_net (s_evolution_chain_url bulbasaur_species) ?st2
             = Inr (bulbasaur_dict,
                    ?st2\<lparr>requests := requests ?st2 @
                             [FetchChain (s_evolution_chain_url bulbasaur_species)],
                          evo_cache := (evo_cache ?st2)
                             (s_evolution_chain_url bulbasaur_species \<mapsto> bulbasaur_dict)\<rparr>)"
    using n by (simp add: get_evolution_chain_def fetch_data_def parse_bulbasaur_chain
        initial_state_def)
  have "process demo_net pokemon_id initial_state =
          Inr ((?st2\<lparr>requests := requests ?st2 @
                             [FetchChain (s_evolution_chain_url bulbasaur_species)],
                          evo_cache := (evo_cache ?st2)
                             (s_evolution_chain_url bulbasaur_species \<mapsto> bulbasaur_dict)\<rparr>)
               \<lparr>csvfile := csvfile ?st2 @
                 [map snd (row_dict pokemon_id bulbasaur_info
                    (description (s_flavor_text_entries bulbasaur_species)) bulbasaur_dict)]\<rparr>)"
    unfolding demo_net_def
    using process_Inr[OF net_of_pokemon_url(1)[OF u] extract_bulbasaur
          net_of_pokemon_url(2)[OF u] g[unfolded demo_net_def]]
    by simp
  then show ?thesis by (simp add: demo_row_dict bulbasaur_species_def u initial_state_def)
qed

lemma demo_run_miss:
  "run_loop demo_net (i # ids) initial_state =
     Inr \<lparr>evo_cache = [''https://pokeapi.co/api/v2/evolution-chain/1/'' \<mapsto> bulbasaur_dict],
          csvfile = header # map demo_row (i # ids),
          requests =
            [FetchPokemon (pokemon_url i),
             FetchSpecies ''https://pokeapi.co/api/v2/pokemon-species/1/'',
             FetchChain ''https://pokeapi.co/api/v2/evolution-chain/1/'']
            @ concat (map (\<lambda>i. [FetchPokemon (pokemon_url i),
                                   FetchSpecies ''https://pokeapi.co/api/v2/pokemon-species/1/''])
                        ids)\<rparr>"
  by (simp add: demo_process_miss demo_run_hit)

lemma main_demo_net:
  "main demo_net =
     Inr \<lparr>evo_cache = [''https://pokeapi.co/api/v2/evolution-chain/1/'' \<mapsto> bulbasaur_dict],
          csvfile = header # map demo_row [1..<152],
          requests =
            [FetchPokemon (pokemon_url 1),
             FetchSpecies ''https://pokeapi.co/api/v2/pokemon-species/1/'',
             FetchChain ''https://pokeapi.co/api/v2/evolution-chain/1/'']
            @ concat (map (\<lambda>i. [FetchPokemon (pokemon_url i),
                                   FetchSpecies ''https://pokeapi.co/api/v2/pokemon-species/1/''])
                        [2..<152])\<rparr>"
proof -
  have ids: "[1..<152] = 1 # [2..<152]" by (simp add: upt_conv_Cons)
  show ?thesis unfolding main_def ids by (rule demo_run_miss)
qed

text \<open>
  Claim C10: with an empty \<open>types\<close> list the extraction raises \<open>IndexError\<close> at
  \<open>types[0]\<close>, the iteration ends there (after the one request for the Pokemon, with
  nothing written) and the run aborts; with a non-empty list the primary type is the name
  of the first type and the secondary type is the name of the second, or the empty string
  when there is no second.
\<close>

theorem type_extraction:
  "(p_types p = [] \<longrightarrow>
      extract_base_info p = Inl IndexError
      \<and> (net (pokemon_url pokemon_id) = Some (PokemonPayload p) \<longrightarrow>
           process net pokemon_id st =
             Inl (IndexError,
                  st\<lparr>requests := requests st @ [FetchPokemon (pokemon_url pokemon_id)]\<rparr>)
           \<and> (pokemon_id \<in> {1..151} \<longrightarrow> (\<exists>failed. main net = Inl failed))))
   \<and> (p_types p \<noteq> [] \<longrightarrow>
        type_primary (types_of p) = Inr (type_name (p_types p ! 0))
        \<and> type_secondary (types_of p) =
            (if 2 \<le> length (p_types p) then type_name (p_types p ! 1) else []))
   \<and> (extract_base_info p = Inr info \<longrightarrow>
        b_type_primary info = type_name (p_types p ! 0)
        \<and> b_type_secondary info =
            (if 2 \<le> length (p_types p) then type_name (p_types p ! 1) else []))"
proof (intro conjI impI)
  assume "p_types p = []"
  then show e: "extract_base_info p = Inl IndexError" by (rule extract_base_info_no_types)
  assume n: "net (pokemon_url pokemon_id) = Some (PokemonPayload p)"
  show "process net pokemon_id st =
          Inl (IndexError, st\<lparr>requests := requests st @ [FetchPokemon (pokemon_url pokemon_id)]\<rparr>)"
    using n e by (rule process_extract_Inl)
  assume i: "pokemon_id \<in> {1..151}"
  show "\<exists>failed. main net = Inl failed"
    using n e by (intro main_abort[OF i]) (simp add: process_extract_Inl)
next
  assume "p_types p \<noteq> []"
  then show "type_primary (types_of p) = Inr (type_name (p_types p ! 0))"
    by (cases "p_types p") (simp_all add: type_primary_def types_of_def)
next
  assume "p_types p \<noteq> []"
  then show "type_secondary (types_of p) =
      (if 2 \<le> length (p_types p) then type_name (p_types p ! 1) else [])"
    by (auto simp: type_secondary_def types_of_def)
next
  assume "extract_base_info p = Inr info"
  then show "b_type_primary info = type_name (p_types p ! 0)"
    by (rule extract_base_info_Inr)
next
  assume "extract_base_info p = Inr info"
  then show "b_type_secondary info =
      (if 2 \<le> length (p_types p) then type_name (p_types p ! 1) else [])"
    by (rule extract_base_info_Inr)
qed

theorem type_extraction_witness:
  "p_types typeless = []
   \<and> extract_base_info typeless = Inl IndexError
   \<and> isl (main (net_of typeless bulbasaur_species bulbasaur_chain))
   \<and> type_primary (types_of bulbasaur) = Inr ''grass''
   \<and> type_secondary (types_of bulbasaur) = ''poison''
   \<and> type_primary (types_of ditto) = Inr ''normal''
   \<and> type_secondary (types_of ditto) = []"
proof -
  let ?net = "net_of typeless bulbasaur_species bulbasaur_chain"
  have t: "p_types typeless = []" by (simp add: typeless_def)
  have n: "?net (pokemon_url 1) = Some (PokemonPayload typeless)"
    by (simp add: net_of_def pokemon_url_def typeless_def bulbasaur_def bulbasaur_species_def)
  have i: "(1::nat) \<in> {1..151}" by simp
  from type_extraction[of typeless ?net 1] t n i
  have "extract_base_info typeless = Inl IndexError" "\<exists>failed. main ?net = Inl failed"
    by blast+
  moreover from type_extraction[of bulbasaur] have
    "type_primary (types_of bulbasaur) = Inr ''grass''"
    "type_secondary (types_of bulbasaur) = ''poison''"
    by (simp_all add: bulbasaur_def)
  moreover from type_extraction[of ditto] have
    "type_primary (types_of ditto) = Inr ''normal''"
    "type_secondary (types_of ditto) = []"
    by (simp_all add: ditto_def bulbasaur_def)
  ultimately show ?thesis using t by auto
qed

text \<open>
  Claim C6: when one of the six required stats is absent from the \<open>stats\<close> list, the
  extraction yields no record but an error: the \<open>KeyError\<close> of a required stat that is
  absent (or the \<open>IndexError\<close> of an empty \<open>types\<close> list, which is read first).  The
  iteration ends there, after the one request for the Pokemon and with nothing
  written, and the run aborts.
\<close>

theorem missing_stat_aborts:
  assumes "k \<in> set required_stats" and "k \<notin> stat_name ` set (p_stats p)"
  shows "\<exists>err. extract_base_info p = Inl err
           \<and> (p_types p = [] \<longrightarrow> err = IndexError)
           \<and> (p_types p \<noteq> [] \<longrightarrow>
                (\<exists>k' \<in> set required_stats. k' \<notin> stat_name ` set (p_stats p) \<and> err = KeyError k'))
           \<and> (net (pokemon_url pokemon_id) = Some (PokemonPayload p) \<longrightarrow>
                process net pokemon_id st =
                  Inl (err, st\<lparr>requests := requests st @ [FetchPokemon (pokemon_url pokemon_id)]\<rparr>)
                \<and> (pokemon_id \<in> {1..151} \<longrightarrow> (\<exists>failed. main net = Inl failed)))"
proof (cases "extract_base_info p")
  case (Inr info)
  from extract_base_info_Inr(2)[OF Inr] assms(1) have "k \<in> dom (stats_of p)" by blast
  with assms(2) show ?thesis by (simp add: dom_stats_of)
next
  case (Inl err)
  from extract_base_info_Inl[OF Inl] have
    a: "p_types p = [] \<longrightarrow> err = IndexError"
    and b: "p_types p \<noteq> [] \<longrightarrow>
         (\<exists>k' \<in> set required_stats. k' \<notin> stat_name ` set (p_stats p) \<and> err = KeyError k')"
    by (auto simp: dom_stats_of[symmetric] domIff)
  have c: "process net pokemon_id st =
             Inl (err, st\<lparr>requests := requests st @ [FetchPokemon (pokemon_url pokemon_id)]\<rparr>)
           \<and> (pokemon_id \<in> {1..151} \<longrightarrow> (\<exists>failed. main net = Inl failed))"
    if n: "net (pokemon_url pokemon_id) = Some (PokemonPayload p)"
  proof (intro conjI impI)
    show "process net pokemon_id st =
            Inl (err, st\<lparr>requests := requests st @ [FetchPokemon (pokemon_url pokemon_id)]\<rparr>)"
      using n Inl by (rule process_extract_Inl)
    assume i: "pokemon_id \<in> {1..151}"
    show "\<exists>failed. main net = Inl failed"
      using n Inl by (intro main_abort[OF i]) (simp add: process_extract_Inl)
  qed
  from Inl a b c show ?thesis by blast
qed

theorem missing_stat_aborts_witness:
  "''speed'' \<in> set required_stats
   \<and> ''speed'' \<notin> stat_name ` set (p_stats speedless)
   \<and> extract_base_info speedless = Inl (KeyError ''speed'')
   \<and> isl (main (net_of speedless bulbasaur_species bulbasaur_chain))"
proof -
  let ?net = "net_of speedless bulbasaur_species bulbasaur_chain"
  have k: "''speed'' \<in> set required_stats" by (simp add: required_stats_def)
  have m: "''speed'' \<notin> stat_name ` set (p_stats speedless)"
    by (simp add: speedless_def bulbasaur_def)
  have t: "p_types speedless \<noteq> []" by (simp add: speedless_def bulbasaur_def)
  have n: "?net (pokemon_url 1) = Some (PokemonPayload speedless)"
    by (simp add: net_of_def pokemon_url_def speedless_def bulbasaur_def bulbasaur_species_def)
  have i: "(1::nat) \<in> {1..151}" by simp
  from missing_stat_aborts[OF k m, of ?net 1] t n i obtain err k' where
    e: "extract_base_info speedless = Inl err"
    and k': "k' \<in> set required_stats" "k' \<notin> stat_name ` set (p_stats speedless)"
            "err = KeyError k'"
    and f: "\<exists>failed. main ?net = Inl failed"
    by blast
  from k'(1,2) have "k' = ''speed''"
    by (auto simp: required_stats_def speedless_def bulbasaur_def)
  with e k'(3) f k m show ?thesis by auto
qed

text \<open>
  Claim C5: the description is the flavor text of the first entry, in list order, whose
  language is \<open>en\<close> and whose version is \<open>red\<close> or \<open>blue\<close>, with every newline turned into
  a space and every form feed dropped; without such an entry it is the empty string, and
  the iteration then still writes its row, with an empty description cell, when its
  requests and the other extractions succeed.
\<close>

theorem description_first_match:
  "description entries =
     (case find (\<lambda>entry. language_name entry = ''en''
                   \<and> (version_name entry = ''red'' \<or> version_name entry = ''blue'')) entries of
        None \<Rightarrow> []
      | Some entry \<Rightarrow>
          filter (\<lambda>c. c \<noteq> CHR 0x0C)
            (map (\<lambda>c. if c = CHR 0x0A then CHR '' '' else c) (flavor_text entry)))
   \<and> (find red_blue_english (s_flavor_text_entries species_data) = None \<longrightarrow>
        description (s_flavor_text_entries species_data) = []
        \<and> (net (pokemon_url pokemon_id) = Some (PokemonPayload pokemon_data) \<longrightarrow>
           extract_base_info pokemon_data = Inr info \<longrightarrow>
           net (p_species_url pokemon_data) = Some (SpeciesPayload species_data) \<longrightarrow>
           get_evolution_chain net (s_evolution_chain_url species_data)
             (st\<lparr>requests := requests st @
                   [FetchPokemon (pokemon_url pokemon_id),
                    FetchSpecies (p_species_url pokemon_data)]\<rparr>) = Inr (evo_dict, st3) \<longrightarrow>
           (\<exists>row. process net pokemon_id st = Inr (st3\<lparr>csvfile := csvfile st3 @ [row]\<rparr>)
                 \<and> fieldnames ! 13 = ''description'' \<and> row ! 13 = StrCell [])))"
proof (intro conjI impI)
  have "red_blue_english =
      (\<lambda>entry. language_name entry = ''en''
                 \<and> (version_name entry = ''red'' \<or> version_name entry = ''blue''))"
    by (rule ext) (simp add: red_blue_english_def)
  then show "description entries =
     (case find (\<lambda>entry. language_name entry = ''en''
                   \<and> (version_name entry = ''red'' \<or> version_name entry = ''blue'')) entries of
        None \<Rightarrow> []
      | Some entry \<Rightarrow>
          filter (\<lambda>c. c \<noteq> CHR 0x0C)
            (map (\<lambda>c. if c = CHR 0x0A then CHR '' '' else c) (flavor_text entry)))"
    by (simp add: description_find replace_by_char replace_by_nothing newline_def formfeed_def
        split: option.splits)
next
  assume none: "find red_blue_english (s_flavor_text_entries species_data) = None"
  then show d: "description (s_flavor_text_entries species_data) = []"
    by (simp add: description_find)
  assume "net (pokemon_url pokemon_id) = Some (PokemonPayload pokemon_data)"
    and "extract_base_info pokemon_data = Inr info"
    and "net (p_species_url pokemon_data) = Some (SpeciesPayload species_data)"
    and "get_evolution_chain net (s_evolution_chain_url species_data)
           (st\<lparr>requests := requests st @
                 [FetchPokemon (pokemon_url pokemon_id),
                  FetchSpecies (p_species_url pokemon_data)]\<rparr>) = Inr (evo_dict, st3)"
  from process_Inr[of net pokemon_id pokemon_data info species_data st evo_dict st3, OF this] d
  have "process net pokemon_id st =
          Inr (st3\<lparr>csvfile := csvfile st3 @ [map snd (row_dict pokemon_id info [] evo_dict)]\<rparr>)"
    by simp
  moreover have "fieldnames ! 13 = ''description''" by (simp add: fieldnames_def)
  moreover have "map snd (row_dict pokemon_id info [] evo_dict) ! 13 = StrCell []"
    by (rule row_dict_cells)
  ultimately show "\<exists>row. process net pokemon_id st = Inr (st3\<lparr>csvfile := csvfile st3 @ [row]\<rparr>)
          \<and> fieldnames ! 13 = ''description'' \<and> row ! 13 = StrCell []"
    by blast
qed

theorem description_first_match_witness:
  "description bulbasaur_entries = ''A strange seed was planted on its backat birth.''
   \<and> find red_blue_english (s_flavor_text_entries ditto_species) = None
   \<and> description (s_flavor_text_entries ditto_species) = []
   \<and> \<not> isl (process stray_net 1 initial_state)
   \<and> last (csvfile (final_state (process stray_net 1 initial_state))) ! 13 = StrCell []"
proof -
  let ?st2 = "initial_state\<lparr>requests := requests initial_state @
                [FetchPokemon (pokemon_url 1), FetchSpecies (p_species_url ditto)]\<rparr>"
  let ?st3 = "?st2\<lparr>requests := requests ?st2 @ [FetchChain (s_evolution_chain_url ditto_species)],
                    evo_cache := (evo_cache ?st2)
                       (s_evolution_chain_url ditto_species \<mapsto> bulbasaur_dict)\<rparr>"
  have u: "p_species_url ditto = ''https://pokeapi.co/api/v2/pokemon-species/1/''"
    "s_evolution_chain_url ditto_species = ''https://pokeapi.co/api/v2/evolution-chain/1/''"
    by (simp_all add: ditto_def bulbasaur_def ditto_species_def)
  have none: "find red_blue_english (s_flavor_text_entries ditto_species) = None"
    by (simp add: ditto_species_def red_blue_english_def)
  have n1: "stray_net (pokemon_url 1) = Some (PokemonPayload ditto)"
    unfolding stray_net_def by (rule net_of_pokemon_url(1)[OF u])
  have n2: "stray_net (p_species_url ditto) = Some (SpeciesPayload ditto_species)"
    unfolding stray_net_def by (rule net_of_pokemon_url(2)[OF u])
  have n3: "stray_net (s_evolution_chain_url ditto_species) = Some (ChainPayload bulbasaur_chain)"
    unfolding stray_net_def by (rule net_of_pokemon_url(3)[OF u])
  have g: "get_evolution_chain stray_net (s_evolution_chain_url ditto_species) ?st2
             = Inr (bulbasaur_dict, ?st3)"
    using n3 by (simp add: get_evolution_chain_def fetch_data_def parse_bulbasaur_chain
        initial_state_def)
  from description_first_match[of bulbasaur_entries ditto_species stray_net 1 ditto
      ditto_info initial_state bulbasaur_dict ?st3]
  have a: "description bulbasaur_entries = ''A strange seed was planted on its backat birth.''"
    and b: "find red_blue_english (s_flavor_text_entries ditto_species) = None \<longrightarrow>
        description (s_flavor_text_entries ditto_species) = []
        \<and> (stray_net (pokemon_url 1) = Some (PokemonPayload ditto) \<longrightarrow>
           extract_base_info ditto = Inr ditto_info \<longrightarrow>
           stray_net (p_species_url ditto) = Some (SpeciesPayload ditto_species) \<longrightarrow>
           get_evolution_chain stray_net (s_evolution_chain_url ditto_species) ?st2
             = Inr (bulbasaur_dict, ?st3) \<longrightarrow>
           (\<exists>row. process stray_net 1 initial_state = Inr (?st3\<lparr>csvfile := csvfile ?st3 @ [row]\<rparr>)
                 \<and> fieldnames ! 13 = ''description'' \<and> row ! 13 = StrCell []))"
    by (simp_all add: bulbasaur_entries_def newline_def formfeed_def)
  from b none n1 extract_ditto n2 g obtain row where
    "description (s_flavor_text_entries ditto_species) = []"
    "process stray_net 1 initial_state = Inr (?st3\<lparr>csvfile := csvfile ?st3 @ [row]\<rparr>)"
    "row ! 13 = StrCell []"
    by blast
  with a none show ?thesis by (simp add: final_state_def)
qed

text \<open>
  Claim C7: when the species name is not a key of the resolved mapping, the lookup yields
  the default \<open>{from: None, to: []}\<close>, writing the row raises nothing, and the cells of the
  columns \<open>evolution_from\<close> and \<open>evolution_to\<close> are empty strings; the iteration completes
  with that row when its requests and the base extraction succeed.
\<close>

theorem absent_species_defaults:
  assumes "evo_dict (b_name info) = None"
  shows "evo_details evo_dict (b_name info) = \<lparr>evo_from = None, evo_to = []\<rparr>
       \<and> fieldnames ! 14 = ''evolution_from'' \<and> fieldnames ! 15 = ''evolution_to''
       \<and> (\<exists>row. writerow fieldnames (row_dict pokemon_id info descr evo_dict) = Inr row
              \<and> row ! 14 = StrCell [] \<and> row ! 15 = StrCell [])
       \<and> (net (pokemon_url pokemon_id) = Some (PokemonPayload pokemon_data) \<longrightarrow>
           extract_base_info pokemon_data = Inr info \<longrightarrow>
           net (p_species_url pokemon_data) = Some (SpeciesPayload species_data) \<longrightarrow>
           get_evolution_chain net (s_evolution_chain_url species_data)
             (st\<lparr>requests := requests st @
                   [FetchPokemon (pokemon_url pokemon_id),
                    FetchSpecies (p_species_url pokemon_data)]\<rparr>) = Inr (evo_dict, st3) \<longrightarrow>
           (\<exists>row. process net pokemon_id st = Inr (st3\<lparr>csvfile := csvfile st3 @ [row]\<rparr>)
                 \<and> row ! 14 = StrCell [] \<and> row ! 15 = StrCell []))"
proof -
  from assms have d: "evo_details evo_dict (b_name info) = \<lparr>evo_from = None, evo_to = []\<rparr>"
    by (simp add: evo_details_def)
  have cells: "map snd (row_dict i info dsc evo_dict) ! 14 = StrCell []"
    "map snd (row_dict i info dsc evo_dict) ! 15 = StrCell []" for i dsc
    by (simp_all add: row_dict_cells d evolution_from_def evolution_to_def)
  have "\<exists>row. process net pokemon_id st = Inr (st3\<lparr>csvfile := csvfile st3 @ [row]\<rparr>)
          \<and> row ! 14 = StrCell [] \<and> row ! 15 = StrCell []"
    if "net (pokemon_url pokemon_id) = Some (PokemonPayload pokemon_data)"
      and "extract_base_info pokemon_data = Inr info"
      and "net (p_species_url pokemon_data) = Some (SpeciesPayload species_data)"
      and "get_evolution_chain net (s_evolution_chain_url species_data)
             (st\<lparr>requests := requests st @
                   [FetchPokemon (pokemon_url pokemon_id),
                    FetchSpecies (p_species_url pokemon_data)]\<rparr>) = Inr (evo_dict, st3)"
    using process_Inr[of net pokemon_id pokemon_data info species_data st evo_dict st3, OF that]
      cells by blast
  moreover have "\<exists>row. writerow fieldnames (row_dict pokemon_id info descr evo_dict) = Inr row
              \<and> row ! 14 = StrCell [] \<and> row ! 15 = StrCell []"
    using writerow_row_dict[of pokemon_id info descr evo_dict] cells by blast
  moreover have "fieldnames ! 14 = ''evolution_from''" "fieldnames ! 15 = ''evolution_to''"
    by (simp_all add: fieldnames_def)
  ultimately show ?thesis using d by blast
qed

theorem absent_species_defaults_witness:
  "bulbasaur_dict (b_name ditto_info) = None
   \<and> \<not> isl (process stray_net 1 initial_state)
   \<and> last (csvfile (final_state (process stray_net 1 initial_state))) ! 14 = StrCell []
   \<and> last (csvfile (final_state (process stray_net 1 initial_state))) ! 15 = StrCell []"
proof -
  let ?st2 = "initial_state\<lparr>requests := requests initial_state @
                [FetchPokemon (pokemon_url 1), FetchSpecies (p_species_url ditto)]\<rparr>"
  let ?st3 = "?st2\<lparr>requests := requests ?st2 @ [FetchChain (s_evolution_chain_url ditto_species)],
                    evo_cache := (evo_cache ?st2)
                       (s_evolution_chain_url ditto_species \<mapsto> bulbasaur_dict)\<rparr>"
  have u: "p_species_url ditto = ''https://pokeapi.co/api/v2/pokemon-species/1/''"
    "s_evolution_chain_url ditto_species = ''https://pokeapi.co/api/v2/evolution-chain/1/''"
    by (simp_all add: ditto_def bulbasaur_def ditto_species_def)
  have absent: "bulbasaur_dict (b_name ditto_info) = None"
    by (simp add: bulbasaur_dict_def ditto_info_def bulbasaur_info_def)
  have n1: "stray_net (pokemon_url 1) = Some (PokemonPayload ditto)"
    unfolding stray_net_def by (rule net_of_pokemon_url(1)[OF u])
  have n2: "stray_net (p_species_url ditto) = Some (SpeciesPayload ditto_species)"
    unfolding stray_net_def by (rule net_of_pokemon_url(2)[OF u])
  have n3: "stray_net (s_evolution_chain_url ditto_species) = Some (ChainPayload bulbasaur_chain)"
    unfolding stray_net_def by (rule net_of_pokemon_url(3)[OF u])
  have g: "get_evolution_chain stray_net (s_evolution_chain_url ditto_species) ?st2
             = Inr (bulbasaur_dict, ?st3)"
    using n3 by (simp add: get_evolution_chain_def fetch_data_def parse_bulbasaur_chain
        initial_state_def)
  from absent_species_defaults[of bulbasaur_dict ditto_info 1 _ stray_net ditto ditto_species
      initial_state ?st3] absent n1 extract_ditto n2 g
  obtain row where
    "process stray_net 1 initial_state = Inr (?st3\<lparr>csvfile := csvfile ?st3 @ [row]\<rparr>)"
    "row ! 14 = StrCell []" "row ! 15 = StrCell []"
    by blast
  with absent show ?thesis by (simp add: final_state_def)
qed

text \<open>
  Claim C8: \<open>evolution_to\<close> is the successor names with \<open>", "\<close> between them, in the
  order of the list, and the empty string for an empty list; \<open>evolution_from\<close> is the
  predecessor name, and the empty string when there is none; these are the cells written
  under the two columns.
\<close>

theorem evolution_rendering:
  "evolution_to details =
     (case evo_to details of [] \<Rightarrow> [] | x # xs \<Rightarrow> x @ concat (map (\<lambda>y. '', '' @ y) xs))
   \<and> evolution_from details = (case evo_from details of None \<Rightarrow> [] | Some s \<Rightarrow> s)
   \<and> fieldnames ! 14 = ''evolution_from'' \<and> fieldnames ! 15 = ''evolution_to''
   \<and> (\<exists>row. writerow fieldnames (row_dict pokemon_id info descr evo_dict) = Inr row
          \<and> row ! 14 = StrCell (evolution_from (evo_details evo_dict (b_name info)))
          \<and> row ! 15 = StrCell (evolution_to (evo_details evo_dict (b_name info))))"
proof -
  have "evolution_to details =
     (case evo_to details of [] \<Rightarrow> [] | x # xs \<Rightarrow> x @ concat (map (\<lambda>y. '', '' @ y) xs))"
    by (cases "evo_to details")
      (simp_all add: evolution_to_def join_concat del: append_Cons append_Nil)
  moreover have "evolution_from details = (case evo_from details of None \<Rightarrow> [] | Some s \<Rightarrow> s)"
    by (simp add: evolution_from_def split: option.splits)
  moreover have "fieldnames ! 14 = ''evolution_from''" "fieldnames ! 15 = ''evolution_to''"
    by (simp_all add: fieldnames_def)
  moreover have "\<exists>row. writerow fieldnames (row_dict pokemon_id info descr evo_dict) = Inr row
          \<and> row ! 14 = StrCell (evolution_from (evo_details evo_dict (b_name info)))
          \<and> row ! 15 = StrCell (evolution_to (evo_details evo_dict (b_name info)))"
    using writerow_row_dict[of pokemon_id info descr evo_dict]
      row_dict_cells(4,5)[of pokemon_id info descr evo_dict] by blast
  ultimately show ?thesis by blast
qed

theorem evolution_rendering_witness:
  "evolution_to \<lparr>evo_from = None, evo_to = [''vaporeon'', ''jolteon'', ''flareon'']\<rparr>
     = ''vaporeon, jolteon, flareon''
   \<and> evolution_from \<lparr>evo_from = None, evo_to = [''vaporeon'', ''jolteon'', ''flareon'']\<rparr> = []
   \<and> evolution_to \<lparr>evo_from = Some ''ivysaur'', evo_to = []\<rparr> = []
   \<and> evolution_from \<lparr>evo_from = Some ''ivysaur'', evo_to = []\<rparr> = ''ivysaur''"
  using
    evolution_rendering[of "\<lparr>evo_from = None, evo_to = [''vaporeon'', ''jolteon'', ''flareon'']\<rparr>"]
    evolution_rendering[of "\<lparr>evo_from = Some ''ivysaur'', evo_to = []\<rparr>"]
  by simp

text \<open>
  Claim C3: over a whole run, completed or aborted, no chain URL is requested more than
  once by the cache (the call of line 86).  A lookup of a URL that is a key of the cache returns the stored mapping and
  leaves the state, and with it the log of requests, as it is.  A lookup of a URL that is
  not a key requests it once; when it succeeds it has parsed the response and stored the
  result under the URL, so that the next lookup of that URL returns the same mapping with
  no request.  Every entry of the cache stays, with its value, through an iteration and
  through the loop.
\<close>

theorem evo_cache_fetch_once:
  "count_list (requests (final_state (main net))) (FetchChain url) \<le> 1
   \<and> evo_cache st \<subseteq>\<^sub>m evo_cache (final_state (process net pokemon_id st))
   \<and> evo_cache st \<subseteq>\<^sub>m evo_cache (final_state (run_loop net ids st))
   \<and> (evo_cache st url = Some evo_dict \<longrightarrow>
        get_evolution_chain net url st = Inr (evo_dict, st))
   \<and> (evo_cache st url = None \<longrightarrow>
        (get_evolution_chain net url st = Inr (evo_dict, st') \<longrightarrow>
           (\<exists>c. net url = Some (ChainPayload c) \<and> parse_evolution_chain c = Inr evo_dict)
           \<and> st' = st\<lparr>requests := requests st @ [FetchChain url],
                      evo_cache := (evo_cache st)(url \<mapsto> evo_dict)\<rparr>
           \<and> get_evolution_chain net url st' = Inr (evo_dict, st'))
        \<and> (get_evolution_chain net url st = Inl (err, st') \<longrightarrow>
             st' = st\<lparr>requests := requests st @ [FetchChain url]\<rparr>))"
proof (intro conjI impI)
  have "\<forall>url. count_list (requests initial_state) (FetchChain url)
                 = (if url \<in> dom (evo_cache initial_state) then 1 else 0)"
    by (simp add: initial_state_def)
  from run_loop_fetch_once[OF this, of net "[1..<152]" url]
  show "count_list (requests (final_state (main net))) (FetchChain url) \<le> 1"
    by (simp add: main_def)
next
  show "evo_cache st \<subseteq>\<^sub>m evo_cache (final_state (process net pokemon_id st))"
    by (rule process_cache_grows)
next
  show "evo_cache st \<subseteq>\<^sub>m evo_cache (final_state (run_loop net ids st))"
    by (rule run_loop_cache_grows)
next
  assume "evo_cache st url = Some evo_dict"
  then show "get_evolution_chain net url st = Inr (evo_dict, st)"
    by (rule get_evolution_chain_hit)
next
  assume m: "evo_cache st url = None"
    and g: "get_evolution_chain net url st = Inr (evo_dict, st')"
  from get_evolution_chain_miss(1)[OF m g]
  show "\<exists>c. net url = Some (ChainPayload c) \<and> parse_evolution_chain c = Inr evo_dict"
    and s: "st' = st\<lparr>requests := requests st @ [FetchChain url],
                     evo_cache := (evo_cache st)(url \<mapsto> evo_dict)\<rparr>"
    by blast+
  from s have "evo_cache st' url = Some evo_dict" by simp
  then show "get_evolution_chain net url st' = Inr (evo_dict, st')"
    by (rule get_evolution_chain_hit)
next
  assume m: "evo_cache st url = None"
    and g: "get_evolution_chain net url st = Inl (err, st')"
  from get_evolution_chain_miss(2)[OF m g]
  show "st' = st\<lparr>requests := requests st @ [FetchChain url]\<rparr>" .
qed

theorem evo_cache_fetch_once_witness:
  "evo_cache initial_state ''https://pokeapi.co/api/v2/evolution-chain/1/'' = None
   \<and> get_evolution_chain demo_net ''https://pokeapi.co/api/v2/evolution-chain/1/'' initial_state
       = Inr (bulbasaur_dict,
              \<lparr>evo_cache = [''https://pokeapi.co/api/v2/evolution-chain/1/'' \<mapsto> bulbasaur_dict],
               csvfile = [header],
               requests = [FetchChain ''https://pokeapi.co/api/v2/evolution-chain/1/'']\<rparr>)
   \<and> get_evolution_chain demo_net ''https://pokeapi.co/api/v2/evolution-chain/1/''
         \<lparr>evo_cache = [''https://pokeapi.co/api/v2/evolution-chain/1/'' \<mapsto> bulbasaur_dict],
          csvfile = [header],
          requests = [FetchChain ''https://pokeapi.co/api/v2/evolution-chain/1/'']\<rparr>
       = Inr (bulbasaur_dict,
              \<lparr>evo_cache = [''https://pokeapi.co/api/v2/evolution-chain/1/'' \<mapsto> bulbasaur_dict],
               csvfile = [header],
               requests = [FetchChain ''https://pokeapi.co/api/v2/evolution-chain/1/'']\<rparr>)
   \<and> count_list (requests (final_state (main demo_net)))
         (FetchChain ''https://pokeapi.co/api/v2/evolution-chain/1/'') = 1"
proof -
  let ?url = "''https://pokeapi.co/api/v2/evolution-chain/1/''"
  let ?st' = "\<lparr>evo_cache = [?url \<mapsto> bulbasaur_dict], csvfile = [header],
               requests = [FetchChain ?url]\<rparr>"
  have m: "evo_cache initial_state ?url = None" by (simp add: initial_state_def)
  have n: "demo_net ?url = Some (ChainPayload bulbasaur_chain)"
    by (simp add: demo_net_def net_of_def bulbasaur_def bulbasaur_species_def)
  have g: "get_evolution_chain demo_net ?url initial_state = Inr (bulbasaur_dict, ?st')"
    using n by (simp add: get_evolution_chain_def fetch_data_def parse_bulbasaur_chain
        initial_state_def)
  note t = evo_cache_fetch_once[of demo_net ?url initial_state _ _ bulbasaur_dict ?st']
  from t m g have again: "get_evolution_chain demo_net ?url ?st' = Inr (bulbasaur_dict, ?st')"
    by blast
  from t have "count_list (requests (final_state (main demo_net))) (FetchChain ?url) \<le> 1"
    by blast
  moreover have "FetchChain ?url \<in> set (requests (final_state (main demo_net)))"
    by (simp add: main_demo_net final_state_def)
  then have "count_list (requests (final_state (main demo_net))) (FetchChain ?url) \<noteq> 0"
    by (simp add: count_list_0_iff)
  ultimately have "count_list (requests (final_state (main demo_net))) (FetchChain ?url) = 1"
    by linarith
  with m g again show ?thesis by blast
qed

text \<open>
  Claim C9: the file of a run that completes starts with the header row, the seventeen
  column names in their order, followed by 151 rows of seventeen cells whose \<open>id\<close> cells
  are 1, 2, ..., 151 in this order.
\<close>

theorem main_csvfile:
  assumes "main net = Inr st"
  shows "\<exists>rows. csvfile st =
            map StrCell
              [''id'', ''pokedex_number'', ''name'', ''type_primary'', ''type_secondary'',
               ''hp'', ''attack'', ''defense'', ''special_attack'', ''special_defense'',
               ''speed'', ''height'', ''weight'', ''description'', ''evolution_from'',
               ''evolution_to'', ''image_url''] # rows
          \<and> length rows = 151
          \<and> map (\<lambda>row. row ! 0) rows = map (\<lambda>i. IntCell (int i)) [1..<152]
          \<and> (\<forall>row \<in> set rows. length row = 17)"
proof -
  from assms have "run_loop net [1..<152] initial_state = Inr st" by (simp add: main_def)
  from run_loop_csvfile[OF this] obtain rows where
    c: "csvfile st = csvfile initial_state @ rows"
    and i: "map (\<lambda>row. row ! 0) rows = map (\<lambda>i. IntCell (int i)) [1..<152]"
    and l: "\<forall>row \<in> set rows. length row = 17"
    by blast
  from i have "length (map (\<lambda>row. row ! 0) rows)
      = length (map (\<lambda>i. IntCell (int i)) [1..<152])" by (rule arg_cong)
  then have "length rows = 151" by simp
  moreover from c have "csvfile st =
            map StrCell
              [''id'', ''pokedex_number'', ''name'', ''type_primary'', ''type_secondary'',
               ''hp'', ''attack'', ''defense'', ''special_attack'', ''special_defense'',
               ''speed'', ''height'', ''weight'', ''description'', ''evolution_from'',
               ''evolution_to'', ''image_url''] # rows"
    by (simp add: initial_state_def header_def fieldnames_def)
  ultimately show ?thesis using i l by blast
qed

theorem main_csvfile_witness:
  "\<not> isl (main demo_net)
   \<and> hd (csvfile (final_state (main demo_net))) = header
   \<and> length (csvfile (final_state (main demo_net))) = 152
   \<and> map (\<lambda>row. row ! 0) (tl (csvfile (final_state (main demo_net))))
       = map (\<lambda>i. IntCell (int i)) [1..<152]"
proof -
  obtain st where st: "main demo_net = Inr st" using main_demo_net by blast
  from main_csvfile[OF st] obtain rows where
    "csvfile st = header # rows" "length rows = 151"
    "map (\<lambda>row. row ! 0) rows = map (\<lambda>i. IntCell (int i)) [1..<152]"
    by (auto simp: header_def fieldnames_def)
  with st show ?thesis by (simp add: final_state_def)
qed

end
